theory Spec2Isabelle
  imports Complex_Main "HOL-Library.Sublist"
begin

section \<open>ShoreSquad: the front-end scripts as functions\<close>

text \<open>
  The repository holds three versions of one script: \<^verbatim>\<open>src/js/app.js\<close> (weather from
  Open-Meteo, one call), \<^verbatim>\<open>src/unnamed/part_000\<close> (the NEA 24-hour forecast, one call,
  demo statistics as seed, animated counters) and \<^verbatim>\<open>src/unnamed/part_001\<close> (the NEA
  4-day forecast and the air-temperature readings, two calls). The crew and statistics
  handlers are the same text in all three; what differs takes the version as an argument.
\<close>

datatype variant = OpenMeteo | Nea24h | NeaTwoCalls

subsection \<open>JavaScript values\<close>

text \<open>
  What \<^verbatim>\<open>response.json()\<close> and \<^verbatim>\<open>JSON.parse\<close> hand to the script, plus
  \<^verbatim>\<open>undefined\<close>, which reading a missing property yields. An object is its list of
  own properties in insertion order, without repeated keys.
\<close>

datatype jsval =
    Undefined
  | Null
  | Bool bool
  | Num real
  | Str string
  | Arr "jsval list"
  | Obj "(string \<times> jsval) list"

datatype js_error = TypeError | SyntaxError | QuotaExceededError | HttpStatusError nat

text \<open>\<^verbatim>\<open>if (v)\<close>, \<^verbatim>\<open>!v\<close>, \<^verbatim>\<open>v || d\<close>: the values that count as false.\<close>

fun truthy :: "jsval \<Rightarrow> bool" where
  "truthy Undefined = False"
| "truthy Null = False"
| "truthy (Bool b) = b"
| "truthy (Num r) = (r \<noteq> 0)"
| "truthy (Str s) = (s \<noteq> [])"
| "truthy (Arr xs) = True"
| "truthy (Obj kvs) = True"

text \<open>\<^verbatim>\<open>a || b\<close>.\<close>

definition or_else :: "jsval \<Rightarrow> jsval \<Rightarrow> jsval" where
  "or_else a b = (if truthy a then a else b)"

fun nullish :: "jsval \<Rightarrow> bool" where
  "nullish Undefined = True"
| "nullish Null = True"
| "nullish v = False"

text \<open>
  \<^verbatim>\<open>v.k\<close> for the property names the scripts read (\<^verbatim>\<open>items\<close>, \<^verbatim>\<open>general\<close>,
  \<^verbatim>\<open>low\<close>, ...), none of which a prototype defines: an object gives its own property or
  \<^verbatim>\<open>undefined\<close>, a primitive or an array gives \<^verbatim>\<open>undefined\<close>, and
  \<^verbatim>\<open>undefined\<close> and \<^verbatim>\<open>null\<close> throw a TypeError.
\<close>

fun js_get :: "jsval \<Rightarrow> string \<Rightarrow> js_error + jsval" where
  "js_get Undefined k = Inl TypeError"
| "js_get Null k = Inl TypeError"
| "js_get (Obj kvs) k = Inr (case map_of kvs k of None \<Rightarrow> Undefined | Some v \<Rightarrow> v)"
| "js_get v k = Inr Undefined"

text \<open>\<^verbatim>\<open>v?.k\<close>: \<^verbatim>\<open>undefined\<close> instead of the TypeError.\<close>

definition js_opt :: "jsval \<Rightarrow> string \<Rightarrow> jsval" where
  "js_opt v k = (case js_get v k of Inl e \<Rightarrow> Undefined | Inr x \<Rightarrow> x)"

text \<open>
  \<^verbatim>\<open>v?.[0]\<close>: the first element of an array, the first character of a string, the
  property \<^verbatim>\<open>"0"\<close> of an object.
\<close>

fun js_opt_first :: "jsval \<Rightarrow> jsval" where
  "js_opt_first (Arr xs) = (case xs of [] \<Rightarrow> Undefined | x # _ \<Rightarrow> x)"
| "js_opt_first (Str s) = (case s of [] \<Rightarrow> Undefined | c # _ \<Rightarrow> Str [c])"
| "js_opt_first (Obj kvs) = (case map_of kvs ''0'' of None \<Rightarrow> Undefined | Some v \<Rightarrow> v)"
| "js_opt_first v = Undefined"

text \<open>
  A template literal turns each value into text. That throws a TypeError for an object
  with an own property \<^verbatim>\<open>toString\<close> (parsed JSON holds no functions), also inside an
  array, whose text joins the text of its elements. The model keeps the values a
  template shows rather than their text, and this test for the throw.
\<close>

fun to_text_ok :: "jsval \<Rightarrow> bool" where
  "to_text_ok (Arr xs) = (\<forall>x \<in> set xs. to_text_ok x)"
| "to_text_ok (Obj kvs) = (map_of kvs ''toString'' = None)"
| "to_text_ok v = True"

definition template :: "jsval list \<Rightarrow> js_error + unit" where
  "template holes = (if \<forall>v \<in> set holes. to_text_ok v then Inr () else Inl TypeError)"

subsection \<open>Strings\<close>

text \<open>
  \<^verbatim>\<open>String.prototype.toLowerCase\<close> and \<^verbatim>\<open>includes\<close>, on strings of 8-bit
  characters: the letters A to Z are lowered, every other character is kept.
\<close>

definition lower_char :: "char \<Rightarrow> char" where
  "lower_char c =
     (case map_of (zip ''ABCDEFGHIJKLMNOPQRSTUVWXYZ'' ''abcdefghijklmnopqrstuvwxyz'') c of
        Some l \<Rightarrow> l
      | None \<Rightarrow> c)"

definition toLowerCase :: "string \<Rightarrow> string" where
  "toLowerCase s = map lower_char s"

fun startsWith :: "string \<Rightarrow> string \<Rightarrow> bool" where
  "startsWith s [] = True"
| "startsWith [] (p # ps) = False"
| "startsWith (c # s) (p # ps) = (c = p \<and> startsWith s ps)"

fun js_includes :: "string \<Rightarrow> string \<Rightarrow> bool" where
  "js_includes [] p = (p = [])"
| "js_includes (c # s) p = (startsWith (c # s) p \<or> js_includes s p)"

subsection \<open>Weather glyphs\<close>

text \<open>
  The emoji the scripts return, by name: thunderstorm U+26C8, rain cloud U+1F327,
  cloud U+2601, sun behind cloud U+26C5 (partly cloudy), sun U+2600, wind U+1F4A8,
  fog U+1F32B, snowflake U+2744, and sun behind small cloud U+1F324, the generic one.
\<close>

datatype glyph =
    Thunderstorm
  | Rain_cloud
  | Cloud
  | Sun_behind_cloud
  | Sun
  | Wind_blowing
  | Fog
  | Snowflake
  | Sun_small_cloud

text \<open>\<^verbatim>\<open>getForecastEmoji\<close> (part_000 lines 381-390, part_001 lines 355-364).\<close>

definition getForecastEmoji :: "string \<Rightarrow> glyph" where
  "getForecastEmoji forecastText =
     (let text = toLowerCase forecastText in
      if js_includes text ''thundery'' \<or> js_includes text ''thunder'' then Thunderstorm
      else if js_includes text ''rain'' \<or> js_includes text ''shower'' then Rain_cloud
      else if js_includes text ''cloudy'' \<or> js_includes text ''cloud'' then Cloud
      else if js_includes text ''partly cloudy'' then Sun_behind_cloud
      else if js_includes text ''clear'' \<or> js_includes text ''sunny'' then Sun
      else if js_includes text ''windy'' \<or> js_includes text ''wind'' then Wind_blowing
      else Sun_small_cloud)"

text \<open>
  The call on a value: only a string has \<^verbatim>\<open>toLowerCase\<close>; on anything else the
  call throws a TypeError.
\<close>

fun getForecastEmoji_of :: "jsval \<Rightarrow> js_error + glyph" where
  "getForecastEmoji_of (Str s) = Inr (getForecastEmoji s)"
| "getForecastEmoji_of v = Inl TypeError"

text \<open>\<^verbatim>\<open>getWeatherEmoji\<close> (app.js lines 271-281), on a number.\<close>

definition getWeatherEmoji :: "real \<Rightarrow> glyph" where
  "getWeatherEmoji code =
     (if code = 0 then Sun
      else if code = 1 \<or> code = 2 then Sun_behind_cloud
      else if code = 3 then Cloud
      else if code \<ge> 45 \<and> code \<le> 48 then Fog
      else if code \<ge> 51 \<and> code \<le> 77 then Rain_cloud
      else if code \<ge> 80 \<and> code \<le> 82 then Thunderstorm
      else if code \<ge> 85 \<and> code \<le> 86 then Snowflake
      else Sun_small_cloud)"

subsection \<open>Application state\<close>

text \<open>
  \<^verbatim>\<open>AppState.crew\<close> and \<^verbatim>\<open>AppState.stats\<close>, typed as the handlers build them: an id
  is \<^verbatim>\<open>Date.now()\<close>, an integer; name and role are the form's fields; the join date is
  the text of \<^verbatim>\<open>toLocaleDateString()\<close>. Counts are integers.
\<close>

record crew_member =
  member_id :: int
  name :: string
  role :: string
  joinedDate :: string

record app_stats =
  cleanups :: int
  trash :: int
  beaches :: int
  crewMembers :: int

text \<open>\<^verbatim>\<open>AppConfig.mockStats\<close> (part_000 lines 27-32).\<close>

definition mockStats :: app_stats where
  "mockStats = \<lparr>cleanups = 12, trash = 847, beaches = 5, crewMembers = 28\<rparr>"

text \<open>The statistics \<^verbatim>\<open>AppState\<close> starts with.\<close>

definition zero_stats :: app_stats where
  "zero_stats = \<lparr>cleanups = 0, trash = 0, beaches = 0, crewMembers = 0\<rparr>"

subsection \<open>JSON text\<close>

text \<open>
  \<^verbatim>\<open>JSON.stringify\<close> of the crew list and of the statistics: no white space,
  properties in the order the handlers create them, integers in decimal, strings
  quoted with the escapes of ECMA-262 (QuoteJSONString).
\<close>

definition digit_char :: "nat \<Rightarrow> char" where
  "digit_char d = ''0123456789abcdef'' ! d"

fun digits_of :: "nat \<Rightarrow> string" where
  "digits_of n = (if n < 10 then [digit_char n] else digits_of (n div 10) @ [digit_char (n mod 10)])"

declare digits_of.simps [simp del]

definition show_int :: "int \<Rightarrow> string" where
  "show_int i = (if i < 0 then CHR ''-'' # digits_of (nat (- i)) else digits_of (nat i))"

definition escape_char :: "char \<Rightarrow> string" where
  "escape_char c =
     (if c = CHR 0x22 then [CHR 0x5C, CHR 0x22]
      else if c = CHR 0x5C then [CHR 0x5C, CHR 0x5C]
      else if c = CHR 0x08 then [CHR 0x5C, CHR ''b'']
      else if c = CHR 0x0C then [CHR 0x5C, CHR ''f'']
      else if c = CHR 0x0A then [CHR 0x5C, CHR ''n'']
      else if c = CHR 0x0D then [CHR 0x5C, CHR ''r'']
      else if c = CHR 0x09 then [CHR 0x5C, CHR ''t'']
      else if (of_char c :: nat) < 32
        then [CHR 0x5C, CHR ''u'', CHR ''0'', CHR ''0'',
              digit_char ((of_char c :: nat) div 16), digit_char ((of_char c :: nat) mod 16)]
      else [c])"

definition quote :: "string \<Rightarrow> string" where
  "quote s = CHR 0x22 # concat (map escape_char s) @ [CHR 0x22]"

fun join_with :: "string \<Rightarrow> string list \<Rightarrow> string" where
  "join_with sep [] = []"
| "join_with sep [x] = x"
| "join_with sep (x # y # ys) = x @ sep @ join_with sep (y # ys)"

definition stringify_member :: "crew_member \<Rightarrow> string" where
  "stringify_member m =
     ''{'' @ quote ''id'' @ '':'' @ show_int (member_id m)
     @ '','' @ quote ''name'' @ '':'' @ quote (name m)
     @ '','' @ quote ''role'' @ '':'' @ quote (role m)
     @ '','' @ quote ''joinedDate'' @ '':'' @ quote (joinedDate m) @ ''}''"

definition stringify_crew :: "crew_member list \<Rightarrow> string" where
  "stringify_crew ms = ''['' @ join_with '','' (map stringify_member ms) @ '']''"

definition stringify_stats :: "app_stats \<Rightarrow> string" where
  "stringify_stats s =
     ''{'' @ quote ''cleanups'' @ '':'' @ show_int (cleanups s)
     @ '','' @ quote ''trash'' @ '':'' @ show_int (trash s)
     @ '','' @ quote ''beaches'' @ '':'' @ show_int (beaches s)
     @ '','' @ quote ''crewMembers'' @ '':'' @ show_int (crewMembers s) @ ''}''"

subsection \<open>The local store\<close>

text \<open>
  \<^verbatim>\<open>localStorage\<close>: its items, and the browser's quota as a test on the contents a
  write would leave. \<^verbatim>\<open>setItem\<close> throws when the test fails and writes nothing.
\<close>

record storage =
  items :: "string \<rightharpoonup> string"
  fits :: "(string \<rightharpoonup> string) \<Rightarrow> bool"

definition getItem :: "storage \<Rightarrow> string \<Rightarrow> string option" where
  "getItem st k = items st k"

definition setItem :: "string \<Rightarrow> string \<Rightarrow> storage \<Rightarrow> js_error + storage" where
  "setItem k v st =
     (if fits st ((items st)(k \<mapsto> v)) then Inr (st\<lparr>items := (items st)(k \<mapsto> v)\<rparr>)
      else Inl QuotaExceededError)"

text \<open>\<^verbatim>\<open>AppConfig.storageKeys\<close>.\<close>

definition crew_key :: string where
  "crew_key = ''shoresquad_crew''"

definition stats_key :: string where
  "stats_key = ''shoresquad_stats''"

subsection \<open>The page\<close>

text \<open>
  What the scripts write into the page. A weather fragment keeps the values its template
  shows, in the template's order. A date is kept as the value given to
  \<^verbatim>\<open>formatDateForDisplay\<close>, and the Open-Meteo fragment keeps the weather code its
  glyph is \<^verbatim>\<open>getWeatherEmoji\<close> of.
\<close>

datatype forecast_card =
  Forecast_card (card_date: jsval) (card_glyph: glyph) (card_text: jsval)
    (card_bands: "jsval list") (card_best: bool)

datatype fragment =
    Page_markup
  | Crew_cards "crew_member list"
  | Counter_text int
  | Weather_wmo (wmo_code: jsval) (wmo_temperature: jsval) (wmo_wind: jsval)
  | Ocean_fixed
  | Best_time_fixed
  | Weather_nea (nea_glyph: glyph) (nea_tempHigh: jsval)
      (nea_humLow: jsval) (nea_humHigh: jsval)
      (nea_windLow: jsval) (nea_windHigh: jsval) (nea_windDir: jsval)
  | Ocean_nea (ocean_forecast: jsval) (ocean_humLow: jsval) (ocean_humHigh: jsval)
      (ocean_tempLow: jsval) (ocean_tempHigh: jsval)
  | Reading_now (reading_temp: jsval) (reading_humidity: jsval)
  | Ocean_4day (ocean4_forecast: jsval) (ocean4_humLow: jsval) (ocean4_humHigh: jsval)
  | Forecast_heading
  | Forecast_cards "forecast_card list"

text \<open>
  The elements that have an id, in document order, each with its content.
  \<^verbatim>\<open>getElementById\<close> finds the first one with the id. The page itself is not
  among the sources, so it is an argument; the elements that the scripts look up are
  taken not to lie inside one another, so that writing the content of one leaves the
  others in place.
\<close>

type_synonym page = "(string \<times> fragment) list"

definition getElementById :: "page \<Rightarrow> string \<Rightarrow> fragment option" where
  "getElementById pg i = map_of pg i"

text \<open>Writing \<^verbatim>\<open>innerHTML\<close> or \<^verbatim>\<open>textContent\<close> of the element found.\<close>

fun set_content :: "string \<Rightarrow> fragment \<Rightarrow> page \<Rightarrow> page" where
  "set_content i f [] = []"
| "set_content i f ((j, g) # pg) = (if i = j then (j, f) # pg else (j, g) # set_content i f pg)"

text \<open>Writing the \<^verbatim>\<open>id\<close> of the element found.\<close>

fun set_id :: "string \<Rightarrow> string \<Rightarrow> page \<Rightarrow> page" where
  "set_id i i' [] = []"
| "set_id i i' ((j, g) # pg) = (if i = j then (i', g) # pg else (j, g) # set_id i i' pg)"

datatype notification =
    Member_added string
  | Member_removed
  | Cleanup_scheduled int

text \<open>
  Everything a handler can read or write: \<^verbatim>\<open>AppState\<close>, the store, the page and the
  notices shown (they are appended to the body; the timers that take them away again
  are not modelled).
\<close>

record world =
  crew :: "crew_member list"
  stats :: app_stats
  userLocation :: "(real \<times> real \<times> real) option"
  weather :: jsval
  localStorage :: storage
  document :: page
  notices :: "notification list"

text \<open>
  How a handler ends: it returns, or an exception leaves it and the event loop drops it.
  Either way the writes made up to then stay.
\<close>

datatype completion = Returned world | Thrown js_error world

fun after :: "completion \<Rightarrow> world" where
  "after (Returned w) = w"
| "after (Thrown e w) = w"

fun returned :: "completion \<Rightarrow> bool" where
  "returned (Returned w) = True"
| "returned (Thrown e w) = False"

text \<open>Running the rest of a handler after a call that may throw.\<close>

fun and_then :: "completion \<Rightarrow> (world \<Rightarrow> completion) \<Rightarrow> completion" where
  "and_then (Returned w) f = f w"
| "and_then (Thrown e w) f = Thrown e w"

subsection \<open>Saving\<close>

text \<open>
  \<^verbatim>\<open>saveStateToStorage\<close> (app.js lines 69-76, the same in the other two): the crew
  first, then the statistics; the first write that throws ends the \<^verbatim>\<open>try\<close> block,
  and the \<^verbatim>\<open>catch\<close> only logs.
\<close>

definition saveStateToStorage :: "world \<Rightarrow> world" where
  "saveStateToStorage w =
     (case setItem crew_key (stringify_crew (crew w)) (localStorage w) of
        Inl e \<Rightarrow> w
      | Inr st1 \<Rightarrow>
          (case setItem stats_key (stringify_stats (stats w)) st1 of
             Inl e \<Rightarrow> w\<lparr>localStorage := st1\<rparr>
           | Inr st2 \<Rightarrow> w\<lparr>localStorage := st2\<rparr>))"

subsection \<open>Crew and statistics\<close>

text \<open>\<^verbatim>\<open>renderCrewGrid\<close>: nothing when the page has no crew grid.\<close>

definition renderCrewGrid :: "world \<Rightarrow> world" where
  "renderCrewGrid w =
     (case getElementById (document w) ''crew-grid'' of
        None \<Rightarrow> w
      | Some g \<Rightarrow> w\<lparr>document := set_content ''crew-grid'' (Crew_cards (crew w)) (document w)\<rparr>)"

text \<open>
  \<^verbatim>\<open>document.getElementById(id).textContent = value\<close>, as \<^verbatim>\<open>updateStats\<close> of app.js
  (lines 380-385) and part_001 does it: a TypeError when the page has no such element.
\<close>

definition set_counter :: "string \<Rightarrow> int \<Rightarrow> world \<Rightarrow> completion" where
  "set_counter i n w =
     (case getElementById (document w) i of
        None \<Rightarrow> Thrown TypeError w
      | Some g \<Rightarrow> Returned (w\<lparr>document := set_content i (Counter_text n) (document w)\<rparr>))"

text \<open>
  \<^verbatim>\<open>animateCounter\<close> (part_000 lines 509-529): nothing when the page has no such
  element; otherwise the element counts up frame by frame and ends at the target, which
  is the text kept here.
\<close>

definition animateCounter :: "string \<Rightarrow> int \<Rightarrow> world \<Rightarrow> world" where
  "animateCounter i n w =
     (case getElementById (document w) i of
        None \<Rightarrow> w
      | Some g \<Rightarrow> w\<lparr>document := set_content i (Counter_text n) (document w)\<rparr>)"

definition updateStats :: "variant \<Rightarrow> world \<Rightarrow> completion" where
  "updateStats v w =
     (if v = Nea24h then
        Returned (animateCounter ''impact-count'' (beaches (stats w))
                 (animateCounter ''crew-count'' (crewMembers (stats w))
                 (animateCounter ''trash-count'' (trash (stats w))
                 (animateCounter ''cleanups-count'' (cleanups (stats w)) w))))
      else
        and_then (set_counter ''cleanups-count'' (cleanups (stats w)) w) (\<lambda>w1.
        and_then (set_counter ''trash-count'' (trash (stats w1)) w1) (\<lambda>w2.
        and_then (set_counter ''crew-count'' (crewMembers (stats w2)) w2) (\<lambda>w3.
        set_counter ''impact-count'' (beaches (stats w3)) w3))))"

definition showNotification :: "notification \<Rightarrow> world \<Rightarrow> world" where
  "showNotification n w = w\<lparr>notices := notices w @ [n]\<rparr>"

text \<open>
  \<^verbatim>\<open>handleCrewSubmit\<close> (app.js lines 299-319). The arguments are what the event brings:
  \<^verbatim>\<open>Date.now()\<close>, the form's name and role, and today's date as the locale writes it.
  Hiding the form changes nothing kept here.
\<close>

definition handleCrewSubmit ::
  "variant \<Rightarrow> int \<Rightarrow> string \<Rightarrow> string \<Rightarrow> string \<Rightarrow> world \<Rightarrow> completion" where
  "handleCrewSubmit v now nm rl today w =
     (let crewMember = \<lparr>member_id = now, name = nm, role = rl, joinedDate = today\<rparr>;
          w1 = w\<lparr>crew := crew w @ [crewMember]\<rparr>;
          w2 = w1\<lparr>stats := (stats w1)\<lparr>crewMembers := int (length (crew w1))\<rparr>\<rparr>;
          w3 = renderCrewGrid (saveStateToStorage w2)
      in and_then (updateStats v w3) (\<lambda>w4.
           Returned (showNotification (Member_added (name crewMember)) w4)))"

text \<open>\<^verbatim>\<open>removeCrewMember\<close> (app.js lines 352-361).\<close>

definition removeCrewMember :: "variant \<Rightarrow> int \<Rightarrow> world \<Rightarrow> completion" where
  "removeCrewMember v i w =
     (let w1 = w\<lparr>crew := filter (\<lambda>member. member_id member \<noteq> i) (crew w)\<rparr>;
          w2 = w1\<lparr>stats := (stats w1)\<lparr>crewMembers := int (length (crew w1))\<rparr>\<rparr>;
          w3 = renderCrewGrid (saveStateToStorage w2)
      in and_then (updateStats v w3) (\<lambda>w4.
           Returned (showNotification Member_removed w4)))"

text \<open>
  \<^verbatim>\<open>handleScheduleCleanup\<close> (app.js lines 367-378); \<open>u\<close> is what
  \<^verbatim>\<open>Math.random()\<close> draws, at least 0 and below 1.
\<close>

definition handleScheduleCleanup :: "variant \<Rightarrow> real \<Rightarrow> world \<Rightarrow> completion" where
  "handleScheduleCleanup v u w =
     (let randomItems = \<lfloor>u * 50\<rfloor> + 20;
          s1 = (stats w)\<lparr>cleanups := cleanups (stats w) + 1\<rparr>;
          s2 = s1\<lparr>trash := trash s1 + randomItems\<rparr>;
          s3 = s2\<lparr>beaches := min (cleanups s2) 5\<rparr>;
          w1 = saveStateToStorage (w\<lparr>stats := s3\<rparr>)
      in and_then (updateStats v w1) (\<lambda>w2.
           Returned (showNotification (Cleanup_scheduled randomItems) w2)))"

text \<open>A run of crew events, each on the state the one before left.\<close>

datatype crew_event = Submit int string string string | Remove int

fun crew_step :: "variant \<Rightarrow> crew_event \<Rightarrow> world \<Rightarrow> completion" where
  "crew_step v (Submit now nm rl today) w = handleCrewSubmit v now nm rl today w"
| "crew_step v (Remove i) w = removeCrewMember v i w"

fun crew_run :: "variant \<Rightarrow> crew_event list \<Rightarrow> world \<Rightarrow> world" where
  "crew_run v [] w = w"
| "crew_run v (e # es) w = crew_run v es (after (crew_step v e w))"

subsection \<open>Reading JSON text\<close>

text \<open>
  \<^verbatim>\<open>JSON.parse\<close>, as a recursive-descent reader of the JSON grammar: white space,
  the three literals, integers, strings with their escapes, arrays and objects.
  \<open>Malformed\<close> is the SyntaxError. \<open>Unmodelled\<close> says that the text goes beyond
  what is modelled (a number with a fraction or an exponent, a \<^verbatim>\<open>\u\<close> escape above
  \<^verbatim>\<open>00ff\<close>) and nothing is claimed about it. The script itself writes neither.
  The fuel bounds the recursion; \<^verbatim>\<open>JSON_parse\<close> gives one more than the length of the
  text, and a reader that ran out would answer \<open>Unmodelled\<close>.
\<close>

datatype 'a outcome = Got 'a | Malformed | Unmodelled

definition is_ws :: "char \<Rightarrow> bool" where
  "is_ws c = (c = CHR 0x20 \<or> c = CHR 0x09 \<or> c = CHR 0x0A \<or> c = CHR 0x0D)"

definition skip_ws :: "string \<Rightarrow> string" where
  "skip_ws s = dropWhile is_ws s"

definition is_digit :: "char \<Rightarrow> bool" where
  "is_digit c = (c \<in> set ''0123456789'')"

definition digit_val :: "char \<Rightarrow> nat" where
  "digit_val c = (of_char c :: nat) - 48"

definition hex_val :: "char \<Rightarrow> nat option" where
  "hex_val c =
     (let n = (of_char c :: nat) in
      if 48 \<le> n \<and> n \<le> 57 then Some (n - 48)
      else if 97 \<le> n \<and> n \<le> 102 then Some (n - 87)
      else if 65 \<le> n \<and> n \<le> 70 then Some (n - 55)
      else None)"

fun parse_digits :: "nat \<Rightarrow> string \<Rightarrow> nat \<times> string" where
  "parse_digits acc [] = (acc, [])"
| "parse_digits acc (c # s) =
     (if is_digit c then parse_digits (acc * 10 + digit_val c) s else (acc, c # s))"

definition starts_fraction :: "string \<Rightarrow> bool" where
  "starts_fraction s = (case s of [] \<Rightarrow> False | c # r \<Rightarrow> c = CHR ''.'' \<or> c = CHR ''e'' \<or> c = CHR ''E'')"

definition parse_magnitude :: "string \<Rightarrow> (nat \<times> string) outcome" where
  "parse_magnitude s =
     (case s of
        [] \<Rightarrow> Malformed
      | c # r \<Rightarrow>
          if \<not> is_digit c then Malformed
          else if c = CHR ''0'' then
            (case r of
               [] \<Rightarrow> Got (0, r)
             | d # r' \<Rightarrow> if is_digit d then Malformed
                          else if starts_fraction r then Unmodelled else Got (0, r))
          else (case parse_digits 0 s of (n, rest) \<Rightarrow>
                  if starts_fraction rest then Unmodelled else Got (n, rest)))"

definition parse_number :: "string \<Rightarrow> (jsval \<times> string) outcome" where
  "parse_number s =
     (case s of
        [] \<Rightarrow> Malformed
      | c # r \<Rightarrow>
          if c = CHR ''-'' then
            (case parse_magnitude r of
               Got (n, rest) \<Rightarrow> Got (Num (- real n), rest)
             | Malformed \<Rightarrow> Malformed
             | Unmodelled \<Rightarrow> Unmodelled)
          else
            (case parse_magnitude s of
               Got (n, rest) \<Rightarrow> Got (Num (real n), rest)
             | Malformed \<Rightarrow> Malformed
             | Unmodelled \<Rightarrow> Unmodelled))"

definition unescape :: "char \<Rightarrow> char option" where
  "unescape c =
     (if c = CHR 0x22 then Some (CHR 0x22)
      else if c = CHR 0x5C then Some (CHR 0x5C)
      else if c = CHR ''/'' then Some (CHR ''/'')
      else if c = CHR ''b'' then Some (CHR 0x08)
      else if c = CHR ''f'' then Some (CHR 0x0C)
      else if c = CHR ''n'' then Some (CHR 0x0A)
      else if c = CHR ''r'' then Some (CHR 0x0D)
      else if c = CHR ''t'' then Some (CHR 0x09)
      else None)"

definition hex4 :: "char \<Rightarrow> char \<Rightarrow> char \<Rightarrow> char \<Rightarrow> nat option" where
  "hex4 a b c d =
     (case (hex_val a, hex_val b, hex_val c, hex_val d) of
        (Some x3, Some x2, Some x1, Some x0) \<Rightarrow> Some (((x3 * 16 + x2) * 16 + x1) * 16 + x0)
      | _ \<Rightarrow> None)"

fun parse_chars :: "string \<Rightarrow> (string \<times> string) outcome" where
  "parse_chars [] = Malformed"
| "parse_chars (c # s) =
     (if c = CHR 0x22 then Got ([], s)
      else if c = CHR 0x5C then
        (case s of
           [] \<Rightarrow> Malformed
         | e # s1 \<Rightarrow>
             if e = CHR ''u'' then
               (case s1 of
                  a # b # c # d # s2 \<Rightarrow>
                    (case hex4 a b c d of
                       None \<Rightarrow> Malformed
                     | Some n \<Rightarrow>
                         if n < 256 then
                           (case parse_chars s2 of
                              Got (cs, rest) \<Rightarrow> Got (char_of n # cs, rest)
                            | Malformed \<Rightarrow> Malformed
                            | Unmodelled \<Rightarrow> Unmodelled)
                         else Unmodelled)
                | _ \<Rightarrow> Malformed)
             else
               (case unescape e of
                  None \<Rightarrow> Malformed
                | Some x \<Rightarrow>
                    (case parse_chars s1 of
                       Got (cs, rest) \<Rightarrow> Got (x # cs, rest)
                     | Malformed \<Rightarrow> Malformed
                     | Unmodelled \<Rightarrow> Unmodelled)))
      else if (of_char c :: nat) < 32 then Malformed
      else
        (case parse_chars s of
           Got (cs, rest) \<Rightarrow> Got (c # cs, rest)
         | Malformed \<Rightarrow> Malformed
         | Unmodelled \<Rightarrow> Unmodelled))"

text \<open>A repeated key keeps its first place and takes the last value.\<close>

fun put_property :: "string \<Rightarrow> jsval \<Rightarrow> (string \<times> jsval) list \<Rightarrow> (string \<times> jsval) list" where
  "put_property k v [] = [(k, v)]"
| "put_property k v ((k', v') # kvs) =
     (if k = k' then (k, v) # kvs else (k', v') # put_property k v kvs)"

definition expect :: "string \<Rightarrow> jsval \<Rightarrow> string \<Rightarrow> (jsval \<times> string) outcome" where
  "expect word v s = (if startsWith s word then Got (v, drop (length word) s) else Malformed)"

fun parse_value :: "nat \<Rightarrow> string \<Rightarrow> (jsval \<times> string) outcome"
  and parse_elements :: "nat \<Rightarrow> jsval list \<Rightarrow> string \<Rightarrow> (jsval \<times> string) outcome"
  and parse_members :: "nat \<Rightarrow> (string \<times> jsval) list \<Rightarrow> string \<Rightarrow> (jsval \<times> string) outcome"
where
  "parse_value 0 s = Unmodelled"
| "parse_value (Suc fuel) s =
     (case skip_ws s of
        [] \<Rightarrow> Malformed
      | c # r \<Rightarrow>
          if c = CHR 0x22 then
            (case parse_chars r of
               Got (cs, rest) \<Rightarrow> Got (Str cs, rest)
             | Malformed \<Rightarrow> Malformed
             | Unmodelled \<Rightarrow> Unmodelled)
          else if c = CHR ''['' then
            (case skip_ws r of
               [] \<Rightarrow> Malformed
             | d # r' \<Rightarrow> if d = CHR '']'' then Got (Arr [], r') else parse_elements fuel [] (d # r'))
          else if c = CHR ''{'' then
            (case skip_ws r of
               [] \<Rightarrow> Malformed
             | d # r' \<Rightarrow> if d = CHR ''}'' then Got (Obj [], r') else parse_members fuel [] (d # r'))
          else if c = CHR ''t'' then expect ''true'' (Bool True) (c # r)
          else if c = CHR ''f'' then expect ''false'' (Bool False) (c # r)
          else if c = CHR ''n'' then expect ''null'' Null (c # r)
          else parse_number (c # r))"
| "parse_elements 0 acc s = Unmodelled"
| "parse_elements (Suc fuel) acc s =
     (case parse_value fuel s of
        Malformed \<Rightarrow> Malformed
      | Unmodelled \<Rightarrow> Unmodelled
      | Got (v, rest) \<Rightarrow>
          (case skip_ws rest of
             [] \<Rightarrow> Malformed
           | c # r \<Rightarrow>
               if c = CHR '','' then parse_elements fuel (acc @ [v]) r
               else if c = CHR '']'' then Got (Arr (acc @ [v]), r)
               else Malformed))"
| "parse_members 0 acc s = Unmodelled"
| "parse_members (Suc fuel) acc s =
     (case skip_ws s of
        [] \<Rightarrow> Malformed
      | q # r \<Rightarrow>
          if q \<noteq> CHR 0x22 then Malformed
          else
            (case parse_chars r of
               Malformed \<Rightarrow> Malformed
             | Unmodelled \<Rightarrow> Unmodelled
             | Got (k, rest) \<Rightarrow>
                 (case skip_ws rest of
                    [] \<Rightarrow> Malformed
                  | c # r1 \<Rightarrow>
                      if c \<noteq> CHR '':'' then Malformed
                      else
                        (case parse_value fuel r1 of
                           Malformed \<Rightarrow> Malformed
                         | Unmodelled \<Rightarrow> Unmodelled
                         | Got (v, rest1) \<Rightarrow>
                             (case skip_ws rest1 of
                                [] \<Rightarrow> Malformed
                              | d # r2 \<Rightarrow>
                                  if d = CHR '','' then parse_members fuel (put_property k v acc) r2
                                  else if d = CHR ''}'' then Got (Obj (put_property k v acc), r2)
                                  else Malformed)))))"

definition JSON_parse :: "string \<Rightarrow> jsval outcome" where
  "JSON_parse s =
     (case parse_value (Suc (length s)) s of
        Malformed \<Rightarrow> Malformed
      | Unmodelled \<Rightarrow> Unmodelled
      | Got (v, rest) \<Rightarrow> if skip_ws rest = [] then Got v else Malformed)"

text \<open>
  From the value read to the typed state. A value of another shape than the one the
  script writes (a crew list of objects with id, name, role and joinedDate; statistics
  with the four counts) has no place in the typed state: the answer is \<open>Unmodelled\<close>.
\<close>

definition as_int :: "jsval \<Rightarrow> int option" where
  "as_int v = (case v of Num r \<Rightarrow> if r = of_int \<lfloor>r\<rfloor> then Some \<lfloor>r\<rfloor> else None | _ \<Rightarrow> None)"

definition as_string :: "jsval \<Rightarrow> string option" where
  "as_string v = (case v of Str s \<Rightarrow> Some s | _ \<Rightarrow> None)"

definition member_of :: "jsval \<Rightarrow> crew_member option" where
  "member_of v =
     (case v of
        Obj [(k1, a), (k2, b), (k3, c), (k4, d)] \<Rightarrow>
          if k1 = ''id'' \<and> k2 = ''name'' \<and> k3 = ''role'' \<and> k4 = ''joinedDate'' then
            (case (as_int a, as_string b, as_string c, as_string d) of
               (Some i, Some n, Some r, Some j) \<Rightarrow>
                 Some \<lparr>member_id = i, name = n, role = r, joinedDate = j\<rparr>
             | _ \<Rightarrow> None)
          else None
      | _ \<Rightarrow> None)"

fun members_of :: "jsval list \<Rightarrow> crew_member list option" where
  "members_of [] = Some []"
| "members_of (v # vs) =
     (case member_of v of
        None \<Rightarrow> None
      | Some m \<Rightarrow> (case members_of vs of None \<Rightarrow> None | Some ms \<Rightarrow> Some (m # ms)))"

definition crew_of :: "jsval \<Rightarrow> crew_member list option" where
  "crew_of v = (case v of Arr vs \<Rightarrow> members_of vs | _ \<Rightarrow> None)"

definition stats_of :: "jsval \<Rightarrow> app_stats option" where
  "stats_of v =
     (case v of
        Obj [(k1, a), (k2, b), (k3, c), (k4, d)] \<Rightarrow>
          if k1 = ''cleanups'' \<and> k2 = ''trash'' \<and> k3 = ''beaches'' \<and> k4 = ''crewMembers'' then
            (case (as_int a, as_int b, as_int c, as_int d) of
               (Some x, Some y, Some z, Some u) \<Rightarrow>
                 Some \<lparr>cleanups = x, trash = y, beaches = z, crewMembers = u\<rparr>
             | _ \<Rightarrow> None)
          else None
      | _ \<Rightarrow> None)"

definition typed :: "(jsval \<Rightarrow> 'a option) \<Rightarrow> string \<Rightarrow> 'a outcome" where
  "typed decode text =
     (case JSON_parse text of
        Malformed \<Rightarrow> Malformed
      | Unmodelled \<Rightarrow> Unmodelled
      | Got v \<Rightarrow> (case decode v of None \<Rightarrow> Unmodelled | Some x \<Rightarrow> Got x))"

text \<open>The values that \<^verbatim>\<open>JSON.parse\<close> reads back from what the script wrote.\<close>

definition member_value :: "crew_member \<Rightarrow> jsval" where
  "member_value m =
     Obj [(''id'', Num (of_int (member_id m))), (''name'', Str (name m)),
          (''role'', Str (role m)), (''joinedDate'', Str (joinedDate m))]"

definition stats_value :: "app_stats \<Rightarrow> jsval" where
  "stats_value s =
     Obj [(''cleanups'', Num (of_int (cleanups s))), (''trash'', Num (of_int (trash s))),
          (''beaches'', Num (of_int (beaches s))), (''crewMembers'', Num (of_int (crewMembers s)))]"

text \<open>Auxiliary notions for the proofs about the reader.\<close>

definition digits_value :: "nat \<Rightarrow> string \<Rightarrow> nat" where
  "digits_value acc ds = foldl (\<lambda>a c. a * 10 + digit_val c) acc ds"

definition ends_number :: "string \<Rightarrow> bool" where
  "ends_number rest = (case rest of [] \<Rightarrow> True | c # r \<Rightarrow> \<not> is_digit c \<and> \<not> starts_fraction rest)"

definition cons_outcome :: "char \<Rightarrow> (string \<times> string) outcome \<Rightarrow> (string \<times> string) outcome" where
  "cons_outcome c r = (case r of Got (cs, rest) \<Rightarrow> Got (c # cs, rest) | Malformed \<Rightarrow> Malformed | Unmodelled \<Rightarrow> Unmodelled)"

subsection \<open>Loading\<close>

text \<open>
  \<^verbatim>\<open>loadStateFromStorage\<close> (app.js lines 57-67, part_000 lines 69-86). The
  \<^verbatim>\<open>catch\<close> block of part_000 puts the demo statistics in place; the crew assigned
  before the throw stays. \<open>None\<close> is the answer for a store whose text is
  \<open>Unmodelled\<close>.
\<close>

definition load_catch :: "variant \<Rightarrow> world \<Rightarrow> world" where
  "load_catch v w = (if v = Nea24h then w\<lparr>stats := mockStats\<rparr> else w)"

definition load_no_stats :: "variant \<Rightarrow> world \<Rightarrow> world" where
  "load_no_stats v w = (if v = Nea24h then w\<lparr>stats := mockStats\<rparr> else w)"

definition loadStateFromStorage :: "variant \<Rightarrow> world \<Rightarrow> world option" where
  "loadStateFromStorage v w =
     (let savedCrew = getItem (localStorage w) crew_key;
          savedStats = getItem (localStorage w) stats_key;
          crew_read =
            (case savedCrew of
               None \<Rightarrow> Got w
             | Some t \<Rightarrow>
                 if t = [] then Got w
                 else (case typed crew_of t of
                         Got c \<Rightarrow> Got (w\<lparr>crew := c\<rparr>)
                       | Malformed \<Rightarrow> Malformed
                       | Unmodelled \<Rightarrow> Unmodelled))
      in case crew_read of
           Unmodelled \<Rightarrow> None
         | Malformed \<Rightarrow> Some (load_catch v w)
         | Got w1 \<Rightarrow>
             (case savedStats of
                None \<Rightarrow> Some (load_no_stats v w1)
              | Some t \<Rightarrow>
                  if t = [] then Some (load_no_stats v w1)
                  else (case typed stats_of t of
                          Got s \<Rightarrow> Some (w1\<lparr>stats := s\<rparr>)
                        | Malformed \<Rightarrow> Some (load_catch v w1)
                        | Unmodelled \<Rightarrow> None)))"

subsection \<open>Weather: what the calls bring\<close>

text \<open>
  The outcome of \<^verbatim>\<open>await fetch(url)\<close> followed by \<^verbatim>\<open>response.json()\<close>: the fetch
  is rejected (no network), or there is a response with its status and its body, which
  is JSON (the value given) or not (\<^verbatim>\<open>json()\<close> is rejected with a SyntaxError).
\<close>

datatype http_reply = Unreachable | Reply (status: nat) (body: "jsval option")

text \<open>\<^verbatim>\<open>response.ok\<close>.\<close>

definition ok :: "nat \<Rightarrow> bool" where
  "ok st = (200 \<le> st \<and> st \<le> 299)"

text \<open>
  The clock, as far as the mock data reads it: \<^verbatim>\<open>new Date().toISOString()\<close>, the same
  for a time some milliseconds ahead, and for the date a number of days ahead.
\<close>

record clock =
  iso_now :: string
  iso_after :: "int \<Rightarrow> string"
  iso_day :: "nat \<Rightarrow> string"

text \<open>\<^verbatim>\<open>getDateString\<close> (part_000 lines 292-296): the ISO text up to its \<^verbatim>\<open>T\<close>.\<close>

definition getDateString :: "clock \<Rightarrow> nat \<Rightarrow> string" where
  "getDateString clk daysOffset = takeWhile (\<lambda>c. c \<noteq> CHR ''T'') (iso_day clk daysOffset)"

definition has_element :: "string \<Rightarrow> world \<Rightarrow> bool" where
  "has_element i w = (getElementById (document w) i \<noteq> None)"

definition write_element :: "string \<Rightarrow> fragment \<Rightarrow> world \<Rightarrow> world" where
  "write_element i f w = w\<lparr>document := set_content i f (document w)\<rparr>"

text \<open>
  \<^verbatim>\<open>el.innerHTML = `...`\<close>: the template is built first, and when that throws
  nothing is written.
\<close>

definition write_template :: "string \<Rightarrow> jsval list \<Rightarrow> fragment \<Rightarrow> world \<Rightarrow> completion" where
  "write_template i holes f w =
     (case template holes of
        Inl e \<Rightarrow> Thrown e w
      | Inr u \<Rightarrow> Returned (write_element i f w))"

subsection \<open>Weather in app.js (Open-Meteo)\<close>

text \<open>\<^verbatim>\<open>getMockWeatherData\<close> (app.js lines 230-238).\<close>

definition getMockWeatherData_wmo :: jsval where
  "getMockWeatherData_wmo =
     Obj [(''current'', Obj [(''temperature_2m'', Num 22), (''weather_code'', Num 80),
                             (''wind_speed_10m'', Num 12)])]"

text \<open>
  \<^verbatim>\<open>updateWeatherUI\<close> (app.js lines 240-269). \<^verbatim>\<open>getWeatherEmoji\<close> compares the
  code with numbers, which turns an object or an array into text first and so can throw
  like a template.
\<close>

definition updateWeatherUI_wmo :: "jsval \<Rightarrow> world \<Rightarrow> completion" where
  "updateWeatherUI_wmo weatherData w =
     (case js_get weatherData ''current'' of
        Inl e \<Rightarrow> Thrown e w
      | Inr current \<Rightarrow>
          and_then
            (if has_element ''current-weather'' w then
               (case js_get current ''weather_code'' of
                  Inl e \<Rightarrow> Thrown e w
                | Inr code \<Rightarrow>
                    write_template ''current-weather''
                      [code, js_opt current ''temperature_2m'', js_opt current ''wind_speed_10m'']
                      (Weather_wmo code (js_opt current ''temperature_2m'')
                         (js_opt current ''wind_speed_10m'')) w)
             else Returned w)
            (\<lambda>w1.
               let w2 = (if has_element ''ocean-conditions'' w1
                         then write_element ''ocean-conditions'' Ocean_fixed w1 else w1);
                   w3 = (if has_element ''best-time'' w2
                         then write_element ''best-time'' Best_time_fixed w2 else w2)
               in Returned w3))"

text \<open>
  \<^verbatim>\<open>fetchWeatherData\<close> (app.js lines 212-228). The status of the response is not
  looked at. What the \<^verbatim>\<open>try\<close> block wrote before a throw stays, and the
  \<^verbatim>\<open>catch\<close> block renders the mock data over it.
\<close>

definition fetchWeatherData_wmo :: "http_reply \<Rightarrow> world \<Rightarrow> completion" where
  "fetchWeatherData_wmo reply w =
     (if userLocation w = None then Returned w
      else
        (case reply of
           Unreachable \<Rightarrow> updateWeatherUI_wmo getMockWeatherData_wmo w
         | Reply st None \<Rightarrow> updateWeatherUI_wmo getMockWeatherData_wmo w
         | Reply st (Some data) \<Rightarrow>
             (case updateWeatherUI_wmo data w of
                Returned w' \<Rightarrow> Returned w'
              | Thrown e w' \<Rightarrow> updateWeatherUI_wmo getMockWeatherData_wmo w')))"

subsection \<open>Weather in part_000 (NEA 24-hour forecast)\<close>

text \<open>\<^verbatim>\<open>getMockWeatherData\<close> (part_000 lines 220-252).\<close>

definition getMockWeatherData_nea :: "clock \<Rightarrow> jsval" where
  "getMockWeatherData_nea clk =
     Obj [(''items'',
           Arr [Obj [(''update_timestamp'', Str (iso_now clk)),
                     (''valid_period'',
                      Obj [(''start'', Str (iso_now clk)),
                           (''end'', Str (iso_after clk (24 * 60 * 60 * 1000)))]),
                     (''general'',
                      Obj [(''forecast'', Str ''Partly cloudy''),
                           (''relative_humidity'', Obj [(''low'', Num 60), (''high'', Num 85)]),
                           (''temperature'', Obj [(''low'', Num 22), (''high'', Num 28)]),
                           (''wind'',
                            Obj [(''speed'', Obj [(''low'', Num 8), (''high'', Num 15)]),
                                 (''direction'', Str ''NE'')])])]]),
          (''api_info'', Obj [(''status'', Str ''healthy'')])]"

text \<open>\<^verbatim>\<open>getMock4DayForecast\<close> (part_000 lines 254-290).\<close>

definition mock_day :: "string \<Rightarrow> string \<Rightarrow> real \<Rightarrow> real \<Rightarrow> real \<Rightarrow> real \<Rightarrow> jsval" where
  "mock_day date forecast hlow hhigh tlow thigh =
     Obj [(''date'', Str date), (''forecast'', Str forecast),
          (''relative_humidity'', Obj [(''low'', Num hlow), (''high'', Num hhigh)]),
          (''temperature'', Obj [(''low'', Num tlow), (''high'', Num thigh)])]"

definition getMock4DayForecast :: "clock \<Rightarrow> jsval" where
  "getMock4DayForecast clk =
     Obj [(''items'',
           Arr [Obj [(''valid_period'',
                      Obj [(''start'', Str (iso_now clk)),
                           (''end'', Str (iso_after clk (4 * 24 * 60 * 60 * 1000)))]),
                     (''forecasts'',
                      Arr [mock_day (getDateString clk 0) ''Partly cloudy'' 60 85 22 28,
                           mock_day (getDateString clk 1) ''Thundery showers'' 70 90 21 26,
                           mock_day (getDateString clk 2) ''Cloudy'' 65 85 23 27,
                           mock_day (getDateString clk 3) ''Partly cloudy'' 60 80 22 28])]])]"

text \<open>
  One card of \<^verbatim>\<open>renderForecastGrid\<close> (part_000 lines 347-366): the glyph first,
  then the template. Reading a property of a \<^verbatim>\<open>null\<close> day throws.
\<close>

definition forecast_card_nea :: "bool \<Rightarrow> jsval \<Rightarrow> js_error + forecast_card" where
  "forecast_card_nea best day =
     (case js_get day ''forecast'' of
        Inl e \<Rightarrow> Inl e
      | Inr forecast \<Rightarrow>
          (case getForecastEmoji_of forecast of
             Inl e \<Rightarrow> Inl e
           | Inr emoji \<Rightarrow>
               (let bands = [or_else (js_opt (js_opt day ''temperature'') ''low'') (Num 22),
                             or_else (js_opt (js_opt day ''temperature'') ''high'') (Num 28),
                             or_else (js_opt (js_opt day ''relative_humidity'') ''low'') (Num 60),
                             or_else (js_opt (js_opt day ''relative_humidity'') ''high'') (Num 85)]
                in case template (js_opt day ''date'' # forecast # bands) of
                     Inl e \<Rightarrow> Inl e
                   | Inr u \<Rightarrow> Inr (Forecast_card (js_opt day ''date'') emoji forecast bands best))))"

text \<open>\<^verbatim>\<open>forecasts.map((day, index) => ...)\<close>: the first card that throws ends it.\<close>

fun map_cards :: "(bool \<Rightarrow> jsval \<Rightarrow> js_error + forecast_card) \<Rightarrow> bool \<Rightarrow> jsval list
    \<Rightarrow> js_error + forecast_card list" where
  "map_cards mk first [] = Inr []"
| "map_cards mk first (day # days) =
     (case mk first day of
        Inl e \<Rightarrow> Inl e
      | Inr c \<Rightarrow> (case map_cards mk False days of Inl e \<Rightarrow> Inl e | Inr cs \<Rightarrow> Inr (c # cs)))"

text \<open>
  \<^verbatim>\<open>renderForecastGrid\<close> (part_000 lines 339-370, part_001 lines 323-344), over the
  card of the version: \<^verbatim>\<open>map\<close> exists on arrays only.
\<close>

definition renderForecastGrid ::
  "(bool \<Rightarrow> jsval \<Rightarrow> js_error + forecast_card) \<Rightarrow> jsval \<Rightarrow> world \<Rightarrow> completion" where
  "renderForecastGrid mk forecastData w =
     (let forecasts = js_opt (js_opt_first (js_opt forecastData ''items'')) ''forecasts'' in
      if \<not> has_element ''weather-grid'' w \<or> \<not> truthy forecasts then Returned w
      else
        (case forecasts of
           Arr days \<Rightarrow>
             (case map_cards mk True days of
                Inl e \<Rightarrow> Thrown e w
              | Inr cards \<Rightarrow> Returned (write_element ''weather-grid'' (Forecast_cards cards) w))
         | _ \<Rightarrow> Thrown TypeError w))"

text \<open>
  \<^verbatim>\<open>updateWeatherUI\<close> (part_000 lines 298-337). The forecast grid is drawn from the
  mock 4-day forecast whatever the data are.
\<close>

definition updateWeatherUI_nea :: "clock \<Rightarrow> jsval \<Rightarrow> world \<Rightarrow> completion" where
  "updateWeatherUI_nea clk weatherData w =
     (let item = js_opt_first (js_opt weatherData ''items'') in
      if \<not> truthy item then Returned w
      else
        (let general = or_else (js_opt item ''general'') (Obj []) in
         and_then
           (if has_element ''current-weather'' w then
              (let temp = or_else (js_opt general ''temperature'') (Obj []);
                   tempHigh = or_else (js_opt temp ''high'') (Num 28);
                   humidity = or_else (js_opt general ''relative_humidity'') (Obj [])
               in case getForecastEmoji_of (or_else (js_opt general ''forecast'') (Str ''Partly cloudy'')) of
                    Inl e \<Rightarrow> Thrown e w
                  | Inr emoji \<Rightarrow>
                      (let humLow = or_else (js_opt humidity ''low'') (Num 60);
                           humHigh = or_else (js_opt humidity ''high'') (Num 85);
                           windLow = or_else (js_opt (js_opt (js_opt general ''wind'') ''speed'') ''low'') (Num 8);
                           windHigh = or_else (js_opt (js_opt (js_opt general ''wind'') ''speed'') ''high'') (Num 15);
                           windDir = or_else (js_opt (js_opt general ''wind'') ''direction'') (Str ''NE'')
                       in write_template ''current-weather''
                            [tempHigh, humLow, humHigh, windLow, windHigh, windDir]
                            (Weather_nea emoji tempHigh humLow humHigh windLow windHigh windDir) w))
            else Returned w)
           (\<lambda>w1.
              and_then
                (if has_element ''ocean-conditions'' w1 then
                   (let forecast = or_else (js_opt general ''forecast'') (Str ''Partly cloudy'');
                        humidity = or_else (js_opt general ''relative_humidity'') (Obj []);
                        humLow = or_else (js_opt humidity ''low'') (Num 60);
                        humHigh = or_else (js_opt humidity ''high'') (Num 85);
                        tempLow = or_else (js_opt (js_opt general ''temperature'') ''low'') (Num 22);
                        tempHigh = or_else (js_opt (js_opt general ''temperature'') ''high'') (Num 28)
                    in write_template ''ocean-conditions''
                         [forecast, humLow, humHigh, tempLow, tempHigh]
                         (Ocean_nea forecast humLow humHigh tempLow tempHigh) w1)
                 else Returned w1)
                (\<lambda>w2. renderForecastGrid forecast_card_nea (getMock4DayForecast clk) w2))))"

text \<open>
  \<^verbatim>\<open>fetchWeatherData\<close> (part_000 lines 194-218): a response that is not
  \<^verbatim>\<open>ok\<close> throws before the body is read.
\<close>

definition nea_catch :: "clock \<Rightarrow> world \<Rightarrow> completion" where
  "nea_catch clk w =
     (let mockData = getMockWeatherData_nea clk
      in updateWeatherUI_nea clk mockData (w\<lparr>weather := mockData\<rparr>))"

definition fetchWeatherData_nea :: "clock \<Rightarrow> http_reply \<Rightarrow> world \<Rightarrow> completion" where
  "fetchWeatherData_nea clk reply w =
     (case reply of
        Unreachable \<Rightarrow> nea_catch clk w
      | Reply st b \<Rightarrow>
          if \<not> ok st then nea_catch clk w
          else
            (case b of
               None \<Rightarrow> nea_catch clk w
             | Some data \<Rightarrow>
                 (case updateWeatherUI_nea clk data (w\<lparr>weather := data\<rparr>) of
                    Returned w' \<Rightarrow> Returned w'
                  | Thrown e w' \<Rightarrow> nea_catch clk w')))"

subsection \<open>Weather in part_001 (NEA 4-day forecast and readings)\<close>

text \<open>\<^verbatim>\<open>getMockForecastData\<close> and \<^verbatim>\<open>getMockReadingsData\<close> (part_001 lines 234-281).\<close>

definition mock_day4 :: "string \<Rightarrow> string \<Rightarrow> real \<Rightarrow> real \<Rightarrow> jsval" where
  "mock_day4 date forecast hlow hhigh =
     Obj [(''date'', Str date), (''forecast'', Str forecast),
          (''relative_humidity'', Obj [(''low'', Num hlow), (''high'', Num hhigh)])]"

definition getMockForecastData :: "clock \<Rightarrow> jsval" where
  "getMockForecastData clk =
     Obj [(''items'',
           Arr [Obj [(''valid_period'',
                      Obj [(''start'', Str (iso_now clk)),
                           (''end'', Str (iso_after clk (4 * 24 * 60 * 60 * 1000)))]),
                     (''forecasts'',
                      Arr [mock_day4 (getDateString clk 0) ''Partly cloudy'' 60 80,
                           mock_day4 (getDateString clk 1) ''Thundery showers'' 70 90,
                           mock_day4 (getDateString clk 2) ''Cloudy'' 65 85,
                           mock_day4 (getDateString clk 3) ''Partly cloudy'' 60 80])]])]"

definition getMockReadingsData :: jsval where
  "getMockReadingsData =
     Obj [(''items'',
           Arr [Obj [(''metadata'',
                      Obj [(''stations'',
                            Arr [Obj [(''id'', Str ''S1''), (''name'', Str ''Pasir Ris''),
                                      (''location'',
                                       Obj [(''lat'', Num (13815 / 10000)),
                                            (''lon'', Num (1039556 / 10000))])]])]),
                     (''readings'', Arr [Obj [(''station_id'', Str ''S1''), (''value'', Num 24)]])]])]"

text \<open>One card of \<^verbatim>\<open>renderForecastGrid\<close> in part_001 (lines 329-340): the date first.\<close>

definition forecast_card_4day :: "bool \<Rightarrow> jsval \<Rightarrow> js_error + forecast_card" where
  "forecast_card_4day best day =
     (case js_get day ''date'' of
        Inl e \<Rightarrow> Inl e
      | Inr date \<Rightarrow>
          (case getForecastEmoji_of (js_opt day ''forecast'') of
             Inl e \<Rightarrow> Inl e
           | Inr emoji \<Rightarrow>
               (let bands = [or_else (js_opt (js_opt day ''relative_humidity'') ''low'') (Num 65),
                             or_else (js_opt (js_opt day ''relative_humidity'') ''high'') (Num 85)]
                in case template (date # js_opt day ''forecast'' # bands) of
                     Inl e \<Rightarrow> Inl e
                   | Inr u \<Rightarrow> Inr (Forecast_card date emoji (js_opt day ''forecast'') bands best))))"

text \<open>\<^verbatim>\<open>updateWeatherUI\<close> (part_001 lines 289-321).\<close>

definition updateWeatherUI_two :: "jsval \<Rightarrow> jsval \<Rightarrow> world \<Rightarrow> completion" where
  "updateWeatherUI_two forecastData readingsData w =
     (let reading = js_opt_first (js_opt (js_opt_first (js_opt readingsData ''items'')) ''readings'');
          forecast = js_opt_first (js_opt (js_opt_first (js_opt forecastData ''items'')) ''forecasts'')
      in
      and_then
        (if has_element ''current-weather'' w \<and> truthy reading then
           (let temp = js_opt reading ''value'';
                humidity = or_else (js_opt (js_opt forecast ''relative_humidity'') ''high'') (Num 75)
            in write_template ''current-weather'' [temp, humidity] (Reading_now temp humidity) w)
         else Returned w)
        (\<lambda>w1.
           and_then
             (if has_element ''ocean-conditions'' w1 \<and> truthy forecast then
                (let humidity = js_opt forecast ''relative_humidity'';
                     humLow = or_else (js_opt humidity ''low'') (Num 70);
                     humHigh = or_else (js_opt humidity ''high'') (Num 85)
                 in write_template ''ocean-conditions''
                      [js_opt forecast ''forecast'', humLow, humHigh]
                      (Ocean_4day (js_opt forecast ''forecast'') humLow humHigh) w1)
              else Returned w1)
             (\<lambda>w2.
                if has_element ''best-time'' w2 then
                  renderForecastGrid forecast_card_4day forecastData
                    (w2\<lparr>document :=
                         set_id ''best-time'' ''forecast-container''
                           (set_content ''best-time'' Forecast_heading (document w2))\<rparr>)
                else Returned w2)))"

text \<open>
  \<^verbatim>\<open>fetchWeatherData\<close> (part_001 lines 216-232): the forecast is awaited, then the
  readings are asked for and awaited, then both are rendered; any throw on the way goes
  to the \<^verbatim>\<open>catch\<close> block, which renders both mocks. The status of neither response
  is looked at.
\<close>

definition two_catch :: "clock \<Rightarrow> world \<Rightarrow> completion" where
  "two_catch clk w = updateWeatherUI_two (getMockForecastData clk) getMockReadingsData w"

definition fetchWeatherData_two :: "clock \<Rightarrow> http_reply \<Rightarrow> http_reply \<Rightarrow> world \<Rightarrow> completion" where
  "fetchWeatherData_two clk forecastReply readingsReply w =
     (case forecastReply of
        Unreachable \<Rightarrow> two_catch clk w
      | Reply st None \<Rightarrow> two_catch clk w
      | Reply st (Some forecastData) \<Rightarrow>
          (case readingsReply of
             Unreachable \<Rightarrow> two_catch clk w
           | Reply st' None \<Rightarrow> two_catch clk w
           | Reply st' (Some readingsData) \<Rightarrow>
               (case updateWeatherUI_two forecastData readingsData w of
                  Returned w' \<Rightarrow> Returned w'
                | Thrown e w' \<Rightarrow> two_catch clk w')))"

subsection \<open>Weather: notions for the properties\<close>

text \<open>The cards that the mock forecasts give, in part_001 and in part_000.\<close>

definition mock_cards4 :: "clock \<Rightarrow> forecast_card list" where
  "mock_cards4 clk =
     [Forecast_card (Str (getDateString clk 0)) (getForecastEmoji ''Partly cloudy'') (Str ''Partly cloudy'') [Num 60, Num 80] True,
      Forecast_card (Str (getDateString clk 1)) (getForecastEmoji ''Thundery showers'') (Str ''Thundery showers'') [Num 70, Num 90] False,
      Forecast_card (Str (getDateString clk 2)) (getForecastEmoji ''Cloudy'') (Str ''Cloudy'') [Num 65, Num 85] False,
      Forecast_card (Str (getDateString clk 3)) (getForecastEmoji ''Partly cloudy'') (Str ''Partly cloudy'') [Num 60, Num 80] False]"

definition mock_cards_nea :: "clock \<Rightarrow> forecast_card list" where
  "mock_cards_nea clk =
     [Forecast_card (Str (getDateString clk 0)) (getForecastEmoji ''Partly cloudy'') (Str ''Partly cloudy'') [Num 22, Num 28, Num 60, Num 85] True,
      Forecast_card (Str (getDateString clk 1)) (getForecastEmoji ''Thundery showers'') (Str ''Thundery showers'') [Num 21, Num 26, Num 70, Num 90] False,
      Forecast_card (Str (getDateString clk 2)) (getForecastEmoji ''Cloudy'') (Str ''Cloudy'') [Num 23, Num 27, Num 65, Num 85] False,
      Forecast_card (Str (getDateString clk 3)) (getForecastEmoji ''Partly cloudy'') (Str ''Partly cloudy'') [Num 22, Num 28, Num 60, Num 80] False]"







subsection \<open>Runs and examples\<close>

text \<open>A run of "schedule cleanup" clicks, each with its random draw.\<close>

fun cleanup_run :: "variant \<Rightarrow> real list \<Rightarrow> world \<Rightarrow> world" where
  "cleanup_run v [] w = w"
| "cleanup_run v (u # us) w = cleanup_run v us (after (handleScheduleCleanup v u w))"

text \<open>The four counters that \<^verbatim>\<open>updateStats\<close> writes.\<close>

definition counter_ids :: "string list" where
  "counter_ids = [''cleanups-count'', ''trash-count'', ''crew-count'', ''impact-count'']"

text \<open>
  \<^verbatim>\<open>AppState\<close> as the script creates it, over a given store and page; a store
  without items and without a quota; a page with every element the scripts look up.
\<close>

definition initial_world :: "storage \<Rightarrow> page \<Rightarrow> world" where
  "initial_world st pg =
     \<lparr>crew = [], stats = zero_stats, userLocation = None, weather = Null,
      localStorage = st, document = pg, notices = []\<rparr>"

definition empty_storage :: storage where
  "empty_storage = \<lparr>items = Map.empty, fits = (\<lambda>m. True)\<rparr>"

definition example_page :: page where
  "example_page =
     [(''crew-grid'', Page_markup), (''cleanups-count'', Page_markup),
      (''trash-count'', Page_markup), (''crew-count'', Page_markup),
      (''impact-count'', Page_markup), (''current-weather'', Page_markup),
      (''ocean-conditions'', Page_markup), (''best-time'', Page_markup),
      (''weather-grid'', Page_markup)]"

definition example_member :: crew_member where
  "example_member = \<lparr>member_id = 1762041600000, name = ''Mei'', role = ''Captain'', joinedDate = ''11/2/2026''\<rparr>"

definition example_member2 :: crew_member where
  "example_member2 = \<lparr>member_id = 1762041660000, name = ''Arun'', role = ''Scout'', joinedDate = ''11/2/2026''\<rparr>"

definition example_world :: world where
  "example_world = (initial_world empty_storage example_page)\<lparr>crew := [example_member]\<rparr>"

text \<open>A store that holds what a save of one member and the demo statistics wrote.\<close>

definition example_saved :: world where
  "example_saved =
     initial_world
       \<lparr>items = [crew_key \<mapsto> stringify_crew [example_member],
                 stats_key \<mapsto> stringify_stats mockStats],
        fits = (\<lambda>m. True)\<rparr>
       example_page"

text \<open>
  Examples for the weather: a clock, an error body as a gateway sends it, readings, an
  Open-Meteo body, a located user, and a 24-hour forecast without humidity and with a
  wind speed from 0.
\<close>

definition example_clock :: clock where
  "example_clock =
     \<lparr>iso_now = ''2026-11-02T01:00:00.000Z'',
      iso_after = (\<lambda>ms. if ms = 86400000 then ''2026-11-03T01:00:00.000Z'' else ''2026-11-06T01:00:00.000Z''),
      iso_day = (\<lambda>k. if k = 0 then ''2026-11-02T01:00:00.000Z''
                     else if k = 1 then ''2026-11-03T01:00:00.000Z''
                     else if k = 2 then ''2026-11-04T01:00:00.000Z''
                     else ''2026-11-05T01:00:00.000Z'')\<rparr>"

definition example_error_body :: jsval where
  "example_error_body = Obj [(''message'', Str ''Internal Server Error'')]"

definition example_readings :: jsval where
  "example_readings =
     Obj [(''items'', Arr [Obj [(''readings'', Arr [Obj [(''station_id'', Str ''S24''), (''value'', Num 31)]])]])]"

definition example_current :: jsval where
  "example_current =
     Obj [(''current'', Obj [(''temperature_2m'', Num 31), (''weather_code'', Num 0),
                             (''wind_speed_10m'', Num 5)])]"

definition example_located :: world where
  "example_located = example_world\<lparr>userLocation := Some (13521 / 10000, 1038198 / 10000, 25)\<rparr>"


text \<open>
  4-day forecasts of one day: one with a humidity from 0, one without the forecast text.
\<close>

definition example_forecast :: jsval where
  "example_forecast =
     Obj [(''items'',
           Arr [Obj [(''forecasts'',
                      Arr [Obj [(''date'', Str ''2026-11-02''), (''forecast'', Str ''Fair''),
                                (''relative_humidity'', Obj [(''low'', Num 0), (''high'', Num 90)])]])]])]"


section \<open>Properties\<close>

subsection \<open>Substring search\<close>

lemma startsWith_iff: "startsWith s p \<longleftrightarrow> (\<exists>b. s = p @ b)"
  by (induction s p rule: startsWith.induct) auto

lemma includes_iff: "js_includes s p \<longleftrightarrow> (\<exists>a b. s = a @ p @ b)"
proof (induction s)
  case Nil
  then show ?case by simp
next
  case (Cons c s)
  show ?case
  proof
    assume "js_includes (c # s) p"
    then consider "startsWith (c # s) p" | "js_includes s p" by auto
    then show "\<exists>a b. c # s = a @ p @ b"
    proof cases
      case 1
      then obtain b where "c # s = p @ b" by (auto simp: startsWith_iff)
      then have "c # s = [] @ p @ b" by simp
      then show ?thesis by blast
    next
      case 2
      then obtain a b where "s = a @ p @ b" using Cons.IH by blast
      then have "c # s = (c # a) @ p @ b" by simp
      then show ?thesis by blast
    qed
  next
    assume "\<exists>a b. c # s = a @ p @ b"
    then obtain a b where ab: "c # s = a @ p @ b" by blast
    show "js_includes (c # s) p"
    proof (cases a)
      case Nil
      with ab have "startsWith (c # s) p" by (auto simp: startsWith_iff)
      then show ?thesis by simp
    next
      case (Cons a0 as)
      with ab have "s = as @ p @ b" by simp
      then have "js_includes s p" using Cons.IH by blast
      then show ?thesis by simp
    qed
  qed
qed

lemma includes_suffix_part: "js_includes s (p @ q) \<Longrightarrow> js_includes s q"
proof -
  assume "js_includes s (p @ q)"
  then obtain a b where "s = a @ (p @ q) @ b" by (auto simp: includes_iff)
  then have "s = (a @ p) @ q @ b" by simp
  then show ?thesis unfolding includes_iff by blast
qed

lemma partly_cloudy_includes_cloudy:
  "js_includes s ''partly cloudy'' \<Longrightarrow> js_includes s ''cloudy''"
  using includes_suffix_part [of s "''partly ''" "''cloudy''"] by simp

subsection \<open>The glyph of a condition text\<close>

text \<open>
  C3: the mapping matches substrings of the lowered text in the order thunder, rain or
  shower, cloud, clear, wind, and "Partly cloudy" is to give the partly-cloudy glyph.
  The code tests "cloudy" before "partly cloudy": "Thundery showers" gives the
  thunderstorm and an unknown text the generic glyph, but "Partly cloudy" gives the
  plain cloud.
\<close>

theorem C3_partly_cloudy_gives_cloud:
  "getForecastEmoji ''Partly cloudy'' = Cloud
   \<and> getForecastEmoji ''Partly cloudy'' \<noteq> Sun_behind_cloud
   \<and> getForecastEmoji ''Thundery showers'' = Thunderstorm
   \<and> getForecastEmoji ''Hazy'' = Sun_small_cloud"
  by (simp add: getForecastEmoji_def toLowerCase_def lower_char_def)

text \<open>
  C9: no text at all gives the partly-cloudy glyph: a text that includes
  "partly cloudy" includes "cloudy", and that test comes first.
\<close>

theorem C9_partly_cloudy_unreachable:
  "getForecastEmoji forecastText \<noteq> Sun_behind_cloud"
  using partly_cloudy_includes_cloudy [of "toLowerCase forecastText"]
  by (auto simp: getForecastEmoji_def Let_def)

theorem C9_partly_cloudy_witness:
  "getForecastEmoji ''Partly cloudy with a light breeze'' \<noteq> Sun_behind_cloud"
  by (rule C9_partly_cloudy_unreachable)


subsection \<open>What the handlers keep\<close>

lemma save_keeps [simp]:
  "crew (saveStateToStorage w) = crew w"
  "stats (saveStateToStorage w) = stats w"
  "document (saveStateToStorage w) = document w"
  "notices (saveStateToStorage w) = notices w"
  by (simp_all add: saveStateToStorage_def split: sum.splits)

lemma render_keeps [simp]:
  "crew (renderCrewGrid w) = crew w"
  "stats (renderCrewGrid w) = stats w"
  "localStorage (renderCrewGrid w) = localStorage w"
  by (simp_all add: renderCrewGrid_def split: option.splits)

lemma set_counter_keeps [simp]:
  "crew (after (set_counter i n w)) = crew w"
  "stats (after (set_counter i n w)) = stats w"
  "localStorage (after (set_counter i n w)) = localStorage w"
  by (simp_all add: set_counter_def split: option.splits)

lemma animateCounter_keeps [simp]:
  "crew (animateCounter i n w) = crew w"
  "stats (animateCounter i n w) = stats w"
  "localStorage (animateCounter i n w) = localStorage w"
  by (simp_all add: animateCounter_def split: option.splits)

lemma after_and_then_keeps:
  assumes "\<And>w'. P (after (f w')) = P w'"
  shows "P (after (and_then c f)) = P (after c)"
  using assms by (cases c) simp_all

lemma updateStats_keeps [simp]:
  "crew (after (updateStats v w)) = crew w"
  "stats (after (updateStats v w)) = stats w"
  "localStorage (after (updateStats v w)) = localStorage w"
  by (simp_all add: updateStats_def after_and_then_keeps)

lemma showNotification_keeps [simp]:
  "crew (showNotification n w) = crew w"
  "stats (showNotification n w) = stats w"
  "localStorage (showNotification n w) = localStorage w"
  by (simp_all add: showNotification_def)

lemma remove_crew: "crew (after (removeCrewMember v i w)) = filter (\<lambda>m. member_id m \<noteq> i) (crew w)"
  by (simp add: removeCrewMember_def Let_def after_and_then_keeps)

lemma remove_stats: "crewMembers (stats (after (removeCrewMember v i w))) = int (length (crew (after (removeCrewMember v i w))))"
  by (simp add: removeCrewMember_def Let_def after_and_then_keeps)

lemma submit_stats: "crewMembers (stats (after (handleCrewSubmit v now nm rl today w))) = int (length (crew (after (handleCrewSubmit v now nm rl today w))))"
  by (simp add: handleCrewSubmit_def Let_def after_and_then_keeps)

lemma cleanup_beaches: "beaches (stats (after (handleScheduleCleanup v u w))) = min (cleanups (stats (after (handleScheduleCleanup v u w)))) 5"
  by (simp add: handleScheduleCleanup_def Let_def after_and_then_keeps)

lemma cleanup_run_append: "cleanup_run v (us @ vs) w = cleanup_run v vs (cleanup_run v us w)"
  by (induction us arbitrary: w) simp_all

lemma crew_run_append: "crew_run v (es @ fs) w = crew_run v fs (crew_run v es w)"
  by (induction es arbitrary: w) simp_all

lemma getElementById_set_content:
  "getElementById (set_content i f pg) j =
     (if j = i then map_option (\<lambda>g. f) (getElementById pg i) else getElementById pg j)"
  by (induction pg) (auto simp: getElementById_def)

lemma has_set_content [simp]: "(getElementById (set_content i f pg) j = None) = (getElementById pg j = None)"
  by (simp add: getElementById_set_content)

lemma render_has [simp]: "(getElementById (document (renderCrewGrid w)) j = None) = (getElementById (document w) j = None)"
  by (simp add: renderCrewGrid_def split: option.splits)

lemma set_counter_returns:
  "getElementById (document w) i \<noteq> None \<Longrightarrow>
   set_counter i n w = Returned (w\<lparr>document := set_content i (Counter_text n) (document w)\<rparr>)"
  by (auto simp: set_counter_def)

lemma updateStats_returns:
  assumes "v = Nea24h \<or> (\<forall>c \<in> set counter_ids. getElementById (document w) c \<noteq> None)"
  shows "returned (updateStats v w)"
  using assms by (auto simp: updateStats_def counter_ids_def set_counter_returns)

lemma returned_and_then: "returned c \<Longrightarrow> (\<And>w. returned (f w)) \<Longrightarrow> returned (and_then c f)"
  by (cases c) simp_all

lemma count_list_filter: "count_list (filter P xs) x = (if P x then count_list xs x else 0)"
  by (induction xs) auto

lemma crew_step_inv: "crewMembers (stats (after (crew_step v e w))) = int (length (crew (after (crew_step v e w))))"
  by (cases e) (simp_all add: submit_stats remove_stats)


subsection \<open>Reading back what was written\<close>

lemma below_16_cases:
  "d < 16 \<Longrightarrow> d \<in> {0, 1, 2, 3, 4, 5, 6, 7, 8, 9, 10, 11, 12, 13, 14, 15::nat}"
  by simp arith

lemma hex_val_digit_char: "d < 16 \<Longrightarrow> hex_val (digit_char d) = Some d"
  by (drule below_16_cases) (auto simp: hex_val_def digit_char_def)

lemma digit_char_digit: "d < 10 \<Longrightarrow> is_digit (digit_char d) \<and> digit_val (digit_char d) = d"
proof -
  assume "d < 10"
  then have "d \<in> {0, 1, 2, 3, 4, 5, 6, 7, 8, 9::nat}" by simp arith
  then show ?thesis by (auto simp: is_digit_def digit_val_def digit_char_def)
qed

lemma digit_char_zero: "d < 10 \<Longrightarrow> (digit_char d = CHR ''0'') = (d = 0)"
proof -
  assume "d < 10"
  then have "d \<in> {0, 1, 2, 3, 4, 5, 6, 7, 8, 9::nat}" by simp arith
  then show ?thesis by (auto simp: digit_char_def)
qed

lemma digits_of_digits: "c \<in> set (digits_of n) \<Longrightarrow> is_digit c"
proof (induction n arbitrary: c rule: digits_of.induct)
  case (1 n)
  then show ?case
    by (subst (asm) (2) digits_of.simps) (auto simp: digit_char_digit split: if_splits)
qed

lemma digits_of_nonempty: "digits_of n \<noteq> []"
  by (subst digits_of.simps) simp

lemma hd_digits_of: "(hd (digits_of n) = CHR ''0'') = (n = 0)"
proof (induction n rule: digits_of.induct)
  case (1 n)
  show ?case
  proof (cases "n < 10")
    case True
    then show ?thesis by (subst digits_of.simps) (simp add: digit_char_zero)
  next
    case False
    then have "hd (digits_of n) = hd (digits_of (n div 10))"
      by (subst digits_of.simps) (simp add: digits_of_nonempty)
    with False "1.IH" show ?thesis by auto
  qed
qed

lemma parse_digits_append:
  "\<forall>c \<in> set ds. is_digit c \<Longrightarrow> parse_digits acc (ds @ rest) = parse_digits (digits_value acc ds) rest"
  by (induction ds arbitrary: acc) (simp_all add: digits_value_def)

lemma digits_value_digits_of:
  "digits_value acc (digits_of n) = acc * 10 ^ length (digits_of n) + n"
proof (induction n arbitrary: acc rule: digits_of.induct)
  case (1 n)
  show ?case
  proof (cases "n < 10")
    case True
    then show ?thesis by (subst (1 2) digits_of.simps) (simp add: digits_value_def digit_char_digit)
  next
    case False
    have "digits_value acc (digits_of n) = digits_value acc (digits_of (n div 10)) * 10 + n mod 10"
      using False by (subst digits_of.simps) (simp add: digits_value_def digit_char_digit)
    also have "\<dots> = (acc * 10 ^ length (digits_of (n div 10)) + n div 10) * 10 + n mod 10"
      using False "1.IH" by simp
    also have "\<dots> = acc * 10 ^ length (digits_of n) + n"
      using False by (subst (2) digits_of.simps) (simp add: algebra_simps)
    finally show ?thesis .
  qed
qed

lemma parse_digits_stop: "ends_number rest \<Longrightarrow> parse_digits acc rest = (acc, rest)"
  by (cases rest) (simp_all add: ends_number_def)

lemma parse_digits_digits_of:
  "ends_number rest \<Longrightarrow> parse_digits 0 (digits_of n @ rest) = (n, rest)"
  by (simp add: parse_digits_append digits_of_digits digits_value_digits_of parse_digits_stop)

lemma parse_magnitude_digits_of:
  assumes "ends_number rest"
  shows "parse_magnitude (digits_of n @ rest) = Got (n, rest)"
proof (cases "digits_of n")
  case Nil
  then show ?thesis using digits_of_nonempty by blast
next
  case (Cons c ds)
  have c: "is_digit c" using digits_of_digits [of c n] Cons by simp
  have hd: "(c = CHR ''0'') = (n = 0)" using hd_digits_of [of n] Cons by simp
  show ?thesis
  proof (cases "n = 0")
    case True
    then have "digits_of n = ''0''" by (subst digits_of.simps) (simp add: digit_char_def)
    then show ?thesis using assms True
      by (cases rest) (auto simp: parse_magnitude_def is_digit_def ends_number_def)
  next
    case False
    then have "c \<noteq> CHR ''0''" using hd by simp
    moreover have "parse_digits 0 (c # ds @ rest) = (n, rest)"
      using parse_digits_digits_of [OF assms, of n] Cons by simp
    moreover have "\<not> starts_fraction rest"
      using assms by (cases rest) (auto simp: ends_number_def starts_fraction_def)
    ultimately show ?thesis using c Cons
      by (simp add: parse_magnitude_def del: parse_digits.simps)
  qed
qed

lemma parse_number_show_int:
  assumes "ends_number rest"
  shows "parse_number (show_int i @ rest) = Got (Num (of_int i), rest)"
proof (cases "i < 0")
  case True
  then show ?thesis
    using parse_magnitude_digits_of [OF assms, of "nat (- i)"]
    by (simp add: parse_number_def show_int_def)
next
  case False
  obtain c ds where cds: "digits_of (nat i) = c # ds"
    using digits_of_nonempty [of "nat i"] by (cases "digits_of (nat i)") auto
  then have "is_digit c" using digits_of_digits [of c "nat i"] by simp
  then have "c \<noteq> CHR ''-''" by (auto simp: is_digit_def)
  then show ?thesis
    using False cds parse_magnitude_digits_of [OF assms, of "nat i"]
    by (simp add: parse_number_def show_int_def)
qed

lemma control_char_escape:
  assumes "(of_char c :: nat) < 32"
  shows "hex4 (CHR ''0'') (CHR ''0'') (digit_char (of_char c div 16)) (digit_char (of_char c mod 16))
         = Some (of_char c)"
proof -
  have "hex_val (digit_char (of_char c div 16)) = Some (of_char c div 16)"
    using assms by (intro hex_val_digit_char) simp
  moreover have "hex_val (digit_char (of_char c mod 16)) = Some (of_char c mod 16)"
    by (intro hex_val_digit_char) simp
  moreover have "hex_val (CHR ''0'') = Some 0" by (simp add: hex_val_def)
  ultimately show ?thesis by (simp add: hex4_def)
qed

lemma parse_chars_escape_char:
  "parse_chars (escape_char c @ t) = cons_outcome c (parse_chars t)"
proof (cases "(of_char c :: nat) < 32")
  case True
  note low = this
  have ne: "c \<noteq> CHR 0x22" "c \<noteq> CHR 0x5C" using True by auto
  consider "c = CHR 0x08" | "c = CHR 0x0C" | "c = CHR 0x0A" | "c = CHR 0x0D" | "c = CHR 0x09"
    | "c \<noteq> CHR 0x08" "c \<noteq> CHR 0x0C" "c \<noteq> CHR 0x0A" "c \<noteq> CHR 0x0D" "c \<noteq> CHR 0x09"
    by blast
  then show ?thesis
  proof cases
    case 6
    have "of_char c < (256::nat)" using low by simp
    then show ?thesis
      using 6 ne low control_char_escape [OF low]
      by (simp add: escape_char_def cons_outcome_def split: outcome.splits)
  qed (simp_all add: escape_char_def cons_outcome_def unescape_def)
next
  case False
  then have ne: "c \<noteq> CHR 0x08" "c \<noteq> CHR 0x0C" "c \<noteq> CHR 0x0A" "c \<noteq> CHR 0x0D" "c \<noteq> CHR 0x09"
    by auto
  show ?thesis
  proof (cases "c = CHR 0x22 \<or> c = CHR 0x5C")
    case True
    then show ?thesis by (auto simp: escape_char_def cons_outcome_def unescape_def)
  next
    case False
    with \<open>\<not> of_char c < 32\<close> ne show ?thesis
      by (simp add: escape_char_def cons_outcome_def)
  qed
qed

lemma parse_chars_escaped:
  "parse_chars (concat (map escape_char s) @ CHR 0x22 # rest) = Got (s, rest)"
  by (induction s) (simp_all add: parse_chars_escape_char cons_outcome_def)

lemma parse_chars_quote:
  "parse_chars (tl (quote s) @ rest) = Got (s, rest)"
  using parse_chars_escaped [of s rest] by (simp add: quote_def)

lemma quote_Cons: "quote s = CHR 0x22 # tl (quote s)"
  by (simp add: quote_def)

lemma skip_ws_keeps: "\<not> is_ws c \<Longrightarrow> skip_ws (c # s) = c # s"
  by (simp add: skip_ws_def)

lemma parse_value_quote: "parse_value (Suc f) (quote s @ rest) = Got (Str s, rest)"
proof -
  have "parse_value (Suc f) (CHR 0x22 # tl (quote s) @ rest) = Got (Str s, rest)"
    by (simp add: skip_ws_keeps is_ws_def parse_chars_quote)
  then show ?thesis using quote_Cons [of s] by (metis append_Cons)
qed

lemma show_int_Cons: "\<exists>c cs. show_int i = c # cs \<and> (c = CHR ''-'' \<or> is_digit c)"
proof (cases "i < 0")
  case True
  then show ?thesis by (simp add: show_int_def)
next
  case False
  obtain c ds where cds: "digits_of (nat i) = c # ds"
    using digits_of_nonempty [of "nat i"] by (cases "digits_of (nat i)") auto
  then have "is_digit c" using digits_of_digits [of c "nat i"] by simp
  with False cds show ?thesis by (simp add: show_int_def)
qed

lemma parse_value_show_int:
  assumes "ends_number rest"
  shows "parse_value (Suc f) (show_int i @ rest) = Got (Num (of_int i), rest)"
proof -
  obtain c cs where ccs: "show_int i = c # cs" and c: "c = CHR ''-'' \<or> is_digit c"
    using show_int_Cons by blast
  have "parse_value (Suc f) (c # cs @ rest) = parse_number (c # cs @ rest)"
    using c by (auto simp: skip_ws_keeps is_ws_def is_digit_def)
  then show ?thesis using parse_number_show_int [OF assms, of i] ccs by simp
qed

lemma ends_number_comma [simp]: "ends_number (CHR '','' # r)"
  and ends_number_brace [simp]: "ends_number (CHR ''}'' # r)"
  by (simp_all add: ends_number_def is_digit_def starts_fraction_def)

lemma member_step_comma:
  assumes "parse_value f vt = Got (v, CHR '','' # r2)"
  shows "parse_members (Suc f) acc (quote k @ CHR '':'' # vt) = parse_members f (put_property k v acc) r2"
proof -
  have "parse_members (Suc f) acc (CHR 0x22 # tl (quote k) @ CHR '':'' # vt)
        = parse_members f (put_property k v acc) r2"
    using assms by (simp add: skip_ws_keeps is_ws_def parse_chars_quote)
  then show ?thesis using quote_Cons [of k] by (metis append_Cons)
qed

lemma member_step_brace:
  assumes "parse_value f vt = Got (v, CHR ''}'' # r2)"
  shows "parse_members (Suc f) acc (quote k @ CHR '':'' # vt) = Got (Obj (put_property k v acc), r2)"
proof -
  have "parse_members (Suc f) acc (CHR 0x22 # tl (quote k) @ CHR '':'' # vt)
        = Got (Obj (put_property k v acc), r2)"
    using assms by (simp add: skip_ws_keeps is_ws_def parse_chars_quote)
  then show ?thesis using quote_Cons [of k] by (metis append_Cons)
qed

lemma parse_value_member:
  "parse_value (Suc (Suc (Suc (Suc (Suc (Suc f)))))) (stringify_member m @ rest) = Got (member_value m, rest)"
proof -
  let ?t4 = "quote (joinedDate m) @ CHR ''}'' # rest"
  let ?t3 = "quote (role m) @ CHR '','' # quote ''joinedDate'' @ CHR '':'' # ?t4"
  let ?t2 = "quote (name m) @ CHR '','' # quote ''role'' @ CHR '':'' # ?t3"
  let ?t1 = "show_int (member_id m) @ CHR '','' # quote ''name'' @ CHR '':'' # ?t2"
  let ?a1 = "put_property ''id'' (Num (of_int (member_id m))) []"
  let ?a2 = "put_property ''name'' (Str (name m)) ?a1"
  let ?a3 = "put_property ''role'' (Str (role m)) ?a2"
  let ?a4 = "put_property ''joinedDate'' (Str (joinedDate m)) ?a3"
  have shape: "stringify_member m @ rest = CHR ''{'' # quote ''id'' @ CHR '':'' # ?t1"
    by (simp add: stringify_member_def)
  have "parse_value (Suc (Suc (Suc (Suc (Suc (Suc f)))))) (CHR ''{'' # CHR 0x22 # tl (quote ''id'') @ CHR '':'' # ?t1)
        = parse_members (Suc (Suc (Suc (Suc (Suc f))))) [] (CHR 0x22 # tl (quote ''id'') @ CHR '':'' # ?t1)"
    by (simp add: skip_ws_keeps is_ws_def del: parse_members.simps)
  then have "parse_value (Suc (Suc (Suc (Suc (Suc (Suc f)))))) (stringify_member m @ rest)
        = parse_members (Suc (Suc (Suc (Suc (Suc f))))) [] (quote ''id'' @ CHR '':'' # ?t1)"
    using shape quote_Cons [of "''id''"] by (metis append_Cons)
  also have "\<dots> = parse_members (Suc (Suc (Suc (Suc f)))) ?a1 (quote ''name'' @ CHR '':'' # ?t2)"
    by (rule member_step_comma, rule parse_value_show_int) simp
  also have "\<dots> = parse_members (Suc (Suc (Suc f))) ?a2 (quote ''role'' @ CHR '':'' # ?t3)"
    by (rule member_step_comma, rule parse_value_quote)
  also have "\<dots> = parse_members (Suc (Suc f)) ?a3 (quote ''joinedDate'' @ CHR '':'' # ?t4)"
    by (rule member_step_comma, rule parse_value_quote)
  also have "\<dots> = Got (Obj ?a4, rest)"
    by (rule member_step_brace, rule parse_value_quote)
  also have "Obj ?a4 = member_value m"
    by (simp add: member_value_def)
  finally show ?thesis .
qed

lemma parse_value_stats:
  "parse_value (Suc (Suc (Suc (Suc (Suc (Suc f)))))) (stringify_stats s @ rest) = Got (stats_value s, rest)"
proof -
  let ?t4 = "show_int (crewMembers s) @ CHR ''}'' # rest"
  let ?t3 = "show_int (beaches s) @ CHR '','' # quote ''crewMembers'' @ CHR '':'' # ?t4"
  let ?t2 = "show_int (trash s) @ CHR '','' # quote ''beaches'' @ CHR '':'' # ?t3"
  let ?t1 = "show_int (cleanups s) @ CHR '','' # quote ''trash'' @ CHR '':'' # ?t2"
  let ?a1 = "put_property ''cleanups'' (Num (of_int (cleanups s))) []"
  let ?a2 = "put_property ''trash'' (Num (of_int (trash s))) ?a1"
  let ?a3 = "put_property ''beaches'' (Num (of_int (beaches s))) ?a2"
  let ?a4 = "put_property ''crewMembers'' (Num (of_int (crewMembers s))) ?a3"
  have shape: "stringify_stats s @ rest = CHR ''{'' # quote ''cleanups'' @ CHR '':'' # ?t1"
    by (simp add: stringify_stats_def)
  have "parse_value (Suc (Suc (Suc (Suc (Suc (Suc f)))))) (CHR ''{'' # CHR 0x22 # tl (quote ''cleanups'') @ CHR '':'' # ?t1)
        = parse_members (Suc (Suc (Suc (Suc (Suc f))))) [] (CHR 0x22 # tl (quote ''cleanups'') @ CHR '':'' # ?t1)"
    by (simp add: skip_ws_keeps is_ws_def del: parse_members.simps)
  then have "parse_value (Suc (Suc (Suc (Suc (Suc (Suc f)))))) (stringify_stats s @ rest)
        = parse_members (Suc (Suc (Suc (Suc (Suc f))))) [] (quote ''cleanups'' @ CHR '':'' # ?t1)"
    using shape quote_Cons [of "''cleanups''"] by (metis append_Cons)
  also have "\<dots> = parse_members (Suc (Suc (Suc (Suc f)))) ?a1 (quote ''trash'' @ CHR '':'' # ?t2)"
    by (rule member_step_comma, rule parse_value_show_int) simp
  also have "\<dots> = parse_members (Suc (Suc (Suc f))) ?a2 (quote ''beaches'' @ CHR '':'' # ?t3)"
    by (rule member_step_comma, rule parse_value_show_int) simp
  also have "\<dots> = parse_members (Suc (Suc f)) ?a3 (quote ''crewMembers'' @ CHR '':'' # ?t4)"
    by (rule member_step_comma, rule parse_value_show_int) simp
  also have "\<dots> = Got (Obj ?a4, rest)"
    by (rule member_step_brace, rule parse_value_show_int) simp
  also have "Obj ?a4 = stats_value s"
    by (simp add: stats_value_def)
  finally show ?thesis .
qed

lemma member_of_member_value: "member_of (member_value m) = Some m"
  by (simp add: member_of_def member_value_def as_int_def as_string_def)

lemma stats_of_stats_value: "stats_of (stats_value s) = Some s"
  by (simp add: stats_of_def stats_value_def as_int_def)

lemma members_of_values: "members_of (map member_value ms) = Some ms"
  by (induction ms) (simp_all add: member_of_member_value)

lemma stringify_member_Cons: "\<exists>t. stringify_member m = CHR ''{'' # t"
  by (simp add: stringify_member_def)

lemma parse_elements_members:
  "parse_elements (Suc (Suc (Suc (Suc (Suc (Suc (Suc (length ms + f)))))))) acc
     (join_with '','' (map stringify_member (m # ms)) @ CHR '']'' # rest)
   = Got (Arr (acc @ map member_value (m # ms)), rest)"
proof (induction ms arbitrary: m acc)
  case Nil
  have "parse_value (Suc (Suc (Suc (Suc (Suc (Suc f)))))) (stringify_member m @ CHR '']'' # rest)
        = Got (member_value m, CHR '']'' # rest)"
    by (rule parse_value_member)
  then show ?case
    by (simp add: skip_ws_keeps is_ws_def del: parse_value.simps)
next
  case (Cons m' ms)
  have "parse_value (Suc (Suc (Suc (Suc (Suc (Suc (Suc (length ms + f))))))))
          (stringify_member m @ CHR '','' # join_with '','' (map stringify_member (m' # ms)) @ CHR '']'' # rest)
        = Got (member_value m, CHR '','' # join_with '','' (map stringify_member (m' # ms)) @ CHR '']'' # rest)"
    by (rule parse_value_member)
  then show ?case
    using Cons.IH [of "acc @ [member_value m]" m']
    by (simp add: skip_ws_keeps is_ws_def del: parse_value.simps)
qed

lemma length_join_with: "length xs \<le> Suc (length (join_with sep (map stringify_member xs)))"
proof (induction xs rule: induct_list012)
  case (3 x y zs)
  obtain t where "stringify_member x = CHR ''{'' # t" using stringify_member_Cons by blast
  with 3 show ?case by simp
qed simp_all

lemma length_stringify_member: "8 \<le> length (stringify_member m)"
  by (simp add: stringify_member_def quote_def)

lemma JSON_parse_stringify_crew: "JSON_parse (stringify_crew ms) = Got (Arr (map member_value ms))"
proof (cases ms)
  case Nil
  then show ?thesis
    by (simp add: JSON_parse_def stringify_crew_def skip_ws_def is_ws_def)
next
  case (Cons m ms')
  let ?body = "join_with '','' (map stringify_member (m # ms'))"
  have len: "length ms' + 8 \<le> length ?body"
  proof (cases ms')
    case Nil
    then show ?thesis using length_stringify_member [of m] by simp
  next
    case (Cons m' ms'')
    then show ?thesis
      using length_join_with [of ms' "'',''"] length_stringify_member [of m] by simp
  qed
  then have "length ms' + 7 \<le> length (stringify_crew ms)"
    using Cons by (simp add: stringify_crew_def)
  then obtain f where "length (stringify_crew ms) = (length ms' + 7) + f"
    using le_Suc_ex by blast
  then have f: "length (stringify_crew ms) = Suc (Suc (Suc (Suc (Suc (Suc (Suc (length ms' + f)))))))"
    by simp
  obtain t where t: "stringify_member m = CHR ''{'' # t" using stringify_member_Cons by blast
  have "parse_value (Suc (length (stringify_crew ms))) (CHR ''['' # ?body @ CHR '']'' # [])
        = parse_elements (length (stringify_crew ms)) [] (?body @ CHR '']'' # [])"
    using t by (cases ms') (simp_all add: skip_ws_keeps is_ws_def del: parse_elements.simps)
  also have "\<dots> = Got (Arr ([] @ map member_value (m # ms')), [])"
    unfolding f by (rule parse_elements_members)
  finally show ?thesis
    using Cons by (simp add: JSON_parse_def stringify_crew_def skip_ws_def)
qed

lemma JSON_parse_stringify_stats: "JSON_parse (stringify_stats s) = Got (stats_value s)"
proof -
  have "6 \<le> length (stringify_stats s)"
    by (simp add: stringify_stats_def quote_def)
  then have "5 \<le> length (stringify_stats s)"
    by simp
  then obtain f where "length (stringify_stats s) = 5 + f"
    using le_Suc_ex by blast
  then have f: "length (stringify_stats s) = Suc (Suc (Suc (Suc (Suc f))))"
    by simp
  have "parse_value (Suc (length (stringify_stats s))) (stringify_stats s @ []) = Got (stats_value s, [])"
    unfolding f by (rule parse_value_stats)
  then show ?thesis by (simp add: JSON_parse_def skip_ws_def)
qed

lemma typed_crew: "typed crew_of (stringify_crew ms) = Got ms"
  by (simp add: typed_def JSON_parse_stringify_crew crew_of_def members_of_values)

lemma typed_stats: "typed stats_of (stringify_stats s) = Got s"
  by (simp add: typed_def JSON_parse_stringify_stats stats_of_stats_value)

lemma stringify_crew_nonempty: "stringify_crew ms \<noteq> []"
  by (simp add: stringify_crew_def)

lemma stringify_stats_nonempty: "stringify_stats s \<noteq> []"
  by (simp add: stringify_stats_def)

lemma load_saved:
  assumes "getItem (localStorage w) crew_key = Some (stringify_crew c)"
    and "getItem (localStorage w) stats_key = Some (stringify_stats s)"
  shows "loadStateFromStorage v w = Some (w\<lparr>crew := c, stats := s\<rparr>)"
  using assms
  by (simp add: loadStateFromStorage_def typed_crew typed_stats
      stringify_crew_nonempty stringify_stats_nonempty)

lemma keys_differ: "crew_key \<noteq> stats_key"
  by (simp add: crew_key_def stats_key_def)

lemma save_writes:
  assumes "fits (localStorage w) ((items (localStorage w))(crew_key \<mapsto> stringify_crew (crew w)))"
    and "fits (localStorage w) ((items (localStorage w))(crew_key \<mapsto> stringify_crew (crew w),
           stats_key \<mapsto> stringify_stats (stats w)))"
  shows "getItem (localStorage (saveStateToStorage w)) crew_key = Some (stringify_crew (crew w))"
    and "getItem (localStorage (saveStateToStorage w)) stats_key = Some (stringify_stats (stats w))"
  using assms keys_differ
  by (simp_all add: saveStateToStorage_def setItem_def getItem_def)

text \<open>The text of a saved crew list, and reading it, on an example.\<close>

lemma stringify_crew_example:
  "stringify_crew [example_member]
   = ''[{\"id\":1762041600000,\"name\":\"Mei\",\"role\":\"Captain\",\"joinedDate\":\"11/2/2026\"}]''"
  by (simp add: stringify_crew_def stringify_member_def example_member_def quote_def
      escape_char_def show_int_def digits_of.simps digit_char_def)

lemma read_crew_example:
  "typed crew_of ''[{\"id\":1762041600000,\"name\":\"Mei\",\"role\":\"Captain\",\"joinedDate\":\"11/2/2026\"}]''
   = Got [example_member]"
  by (simp add: typed_def JSON_parse_def skip_ws_def is_ws_def parse_number_def
      parse_magnitude_def is_digit_def digit_val_def starts_fraction_def crew_of_def
      member_of_def as_int_def as_string_def example_member_def)

section \<open>The claims about crew, statistics and the store\<close>

text \<open>
  C1, as amended: after every crew event of every run, from any state,
  \<^verbatim>\<open>stats.crewMembers\<close> is the length of the crew list. A load does not compute it:
  from a store that holds a saved crew list and saved statistics it restores both as
  they were saved, so after the load the count is the saved count, whatever the length
  of the saved list; from a store that holds neither, the state stays as it was, but
  for part_000, which puts the demo statistics in place.
\<close>

theorem C1_crew_count_after_events_and_load:
  "crewMembers (stats (crew_run v (es @ [e]) w)) = int (length (crew (crew_run v (es @ [e]) w)))
   \<and> (getItem (localStorage w) crew_key = Some (stringify_crew c)
        \<and> getItem (localStorage w) stats_key = Some (stringify_stats s)
      \<longrightarrow> map_option (\<lambda>w'. (crew w', stats w')) (loadStateFromStorage v w) = Some (c, s))
   \<and> (getItem (localStorage w) crew_key = None \<and> getItem (localStorage w) stats_key = None
      \<longrightarrow> loadStateFromStorage v w = Some (if v = Nea24h then w\<lparr>stats := mockStats\<rparr> else w))"
  by (simp add: crew_run_append crew_step_inv load_saved)
     (simp add: loadStateFromStorage_def load_no_stats_def)

theorem C1_crew_count_witness:
  "crewMembers (stats (crew_run OpenMeteo ([Submit 1762041660000 ''Arun'' ''Scout'' ''11/2/2026''] @ [Remove 1762041600000]) example_saved))
   = int (length (crew (crew_run OpenMeteo ([Submit 1762041660000 ''Arun'' ''Scout'' ''11/2/2026''] @ [Remove 1762041600000]) example_saved)))
   \<and> getItem (localStorage example_saved) crew_key = Some (stringify_crew [example_member])
   \<and> getItem (localStorage example_saved) stats_key = Some (stringify_stats mockStats)
   \<and> map_option (\<lambda>w'. (crew w', crewMembers (stats w'))) (loadStateFromStorage OpenMeteo example_saved)
       = Some ([example_member], 28)
   \<and> getItem (localStorage (initial_world empty_storage example_page)) crew_key = None
   \<and> getItem (localStorage (initial_world empty_storage example_page)) stats_key = None
   \<and> map_option (\<lambda>w'. (crew w', crewMembers (stats w')))
        (loadStateFromStorage Nea24h (initial_world empty_storage example_page))
       = Some ([], 28)"
  using C1_crew_count_after_events_and_load [of OpenMeteo
      "[Submit 1762041660000 ''Arun'' ''Scout'' ''11/2/2026'']" "Remove 1762041600000"
      example_saved "[example_member]" mockStats]
    C1_crew_count_after_events_and_load [of Nea24h "[]" "Remove 0"
      "initial_world empty_storage example_page" "[]" zero_stats]
  by (auto simp: example_saved_def initial_world_def empty_storage_def getItem_def keys_differ
      mockStats_def)

text \<open>
  C1 as stated fails at the load: in part_000 a page opened on an empty store has the
  demo statistics, with 28 crew members, and an empty crew list.
\<close>

theorem C1_seeded_load_counterexample:
  "loadStateFromStorage Nea24h (initial_world empty_storage example_page)
     = Some ((initial_world empty_storage example_page)\<lparr>stats := mockStats\<rparr>)
   \<and> crewMembers (stats ((initial_world empty_storage example_page)\<lparr>stats := mockStats\<rparr>)) = 28
   \<and> length (crew ((initial_world empty_storage example_page)\<lparr>stats := mockStats\<rparr>)) = 0"
  by (simp add: loadStateFromStorage_def getItem_def initial_world_def empty_storage_def
      load_no_stats_def mockStats_def)

text \<open>
  C4: after every "schedule cleanup" click, however many came before and from whatever
  state, \<^verbatim>\<open>stats.beaches\<close> is the smaller of \<^verbatim>\<open>stats.cleanups\<close> and 5.
\<close>

theorem C4_beaches_after_cleanup:
  "beaches (stats (cleanup_run v (us @ [u]) w))
   = min (cleanups (stats (cleanup_run v (us @ [u]) w))) 5"
  by (simp add: cleanup_run_append cleanup_beaches)

theorem C4_beaches_witness:
  "beaches (stats (cleanup_run Nea24h ([1/2, 1/4, 0, 1/3, 1/5] @ [3/4]) example_world)) = 5
   \<and> cleanups (stats (cleanup_run Nea24h ([1/2, 1/4, 0, 1/3, 1/5] @ [3/4]) example_world)) = 6"
proof -
  have "cleanups (stats (cleanup_run Nea24h ([1/2, 1/4, 0, 1/3, 1/5] @ [3/4]) example_world)) = 6"
    by (simp add: handleScheduleCleanup_def Let_def after_and_then_keeps example_world_def
        initial_world_def zero_stats_def)
  then show ?thesis
    using C4_beaches_after_cleanup [of Nea24h "[1/2, 1/4, 0, 1/3, 1/5]" "3/4" example_world]
    by simp
qed

text \<open>
  C7: a crew list that was saved is the crew list a later load gives: the same members
  in the same order, each with its id, name, role and join date. Saved means that the
  store took both writes; a write over the quota throws, and the save only logs it.
\<close>

theorem C7_save_then_load_crew:
  assumes "fits (localStorage w) ((items (localStorage w))(crew_key \<mapsto> stringify_crew (crew w)))"
    and "fits (localStorage w) ((items (localStorage w))(crew_key \<mapsto> stringify_crew (crew w),
           stats_key \<mapsto> stringify_stats (stats w)))"
  shows "map_option crew
           (loadStateFromStorage v (w0\<lparr>localStorage := localStorage (saveStateToStorage w)\<rparr>))
         = Some (crew w)"
  using save_writes [OF assms]
  by (simp add: load_saved [where c = "crew w" and s = "stats w"])

theorem C7_save_then_load_witness:
  "fits (localStorage example_world)
     ((items (localStorage example_world))(crew_key \<mapsto> stringify_crew (crew example_world)))
   \<and> fits (localStorage example_world)
     ((items (localStorage example_world))(crew_key \<mapsto> stringify_crew (crew example_world),
        stats_key \<mapsto> stringify_stats (stats example_world)))
   \<and> map_option crew (loadStateFromStorage OpenMeteo
        ((initial_world empty_storage example_page)\<lparr>localStorage :=
           localStorage (saveStateToStorage example_world)\<rparr>))
      = Some [example_member]"
  using C7_save_then_load_crew [of example_world OpenMeteo "initial_world empty_storage example_page"]
  by (simp add: example_world_def initial_world_def empty_storage_def)

text \<open>
  C8: removing by an id that no member has leaves the crew list as it was, and the
  handler returns. In app.js and part_001 \<^verbatim>\<open>updateStats\<close> writes the four counters
  without looking whether the page has them, so there the page must have them; in
  part_000 nothing is asked of the page.
\<close>

theorem C8_remove_absent_id:
  assumes "\<forall>m \<in> set (crew w). member_id m \<noteq> i"
    and "v = Nea24h \<or> (\<forall>c \<in> set counter_ids. getElementById (document w) c \<noteq> None)"
  shows "returned (removeCrewMember v i w) \<and> crew (after (removeCrewMember v i w)) = crew w"
proof
  show "returned (removeCrewMember v i w)"
    unfolding removeCrewMember_def Let_def
    by (rule returned_and_then, rule updateStats_returns) (use assms(2) in simp_all)
  show "crew (after (removeCrewMember v i w)) = crew w"
    using assms(1) by (simp add: remove_crew)
qed

theorem C8_remove_absent_witness:
  "map member_id (crew example_world) = [1762041600000]
   \<and> list_all (\<lambda>c. getElementById (document example_world) c \<noteq> None) counter_ids
   \<and> returned (removeCrewMember OpenMeteo 5 example_world)
   \<and> crew (after (removeCrewMember OpenMeteo 5 example_world)) = [example_member]"
  using C8_remove_absent_id [of example_world 5 OpenMeteo]
  by (simp add: example_world_def initial_world_def example_member_def example_page_def
      counter_ids_def getElementById_def)

text \<open>
  C10: removing by an id removes every member with that id, all of them when two
  members share one, and keeps the others, each as often as before and in the order
  they had.
\<close>

theorem C10_remove_every_member_with_id:
  "crew (after (removeCrewMember v i w)) = filter (\<lambda>m. member_id m \<noteq> i) (crew w)
   \<and> (\<forall>m \<in> set (crew (after (removeCrewMember v i w))). member_id m \<noteq> i)
   \<and> subseq (crew (after (removeCrewMember v i w))) (crew w)
   \<and> (\<forall>m. member_id m \<noteq> i \<longrightarrow>
         count_list (crew (after (removeCrewMember v i w))) m = count_list (crew w) m)"
  by (simp add: remove_crew count_list_filter)

theorem C10_remove_witness:
  "crew (after (removeCrewMember NeaTwoCalls 1762041600000
      (example_world\<lparr>crew := [example_member, example_member2, example_member\<lparr>name := ''Mei Ling''\<rparr>]\<rparr>)))
   = [example_member2]"
  using C10_remove_every_member_with_id [of NeaTwoCalls 1762041600000
      "example_world\<lparr>crew := [example_member, example_member2, example_member\<lparr>name := ''Mei Ling''\<rparr>]\<rparr>"]
  by (simp add: example_member_def example_member2_def)

subsection \<open>What the weather renders do\<close>

lemma getElementById_set_id:
  "j \<noteq> i \<Longrightarrow> j \<noteq> i' \<Longrightarrow> getElementById (set_id i i' pg) j = getElementById pg j"
  by (induction pg) (auto simp: getElementById_def)

lemma has_write_element [simp]: "has_element j (write_element i f w) = has_element j w"
  by (simp add: has_element_def write_element_def)

lemma lookup_write_element:
  "getElementById (document (write_element i f w)) j =
     (if j = i then map_option (\<lambda>g. f) (getElementById (document w) i) else getElementById (document w) j)"
  by (simp add: write_element_def getElementById_set_content)

lemma map_cards_mock4: 
  "map_cards forecast_card_4day True
     [mock_day4 (getDateString clk 0) ''Partly cloudy'' 60 80,
      mock_day4 (getDateString clk 1) ''Thundery showers'' 70 90,
      mock_day4 (getDateString clk 2) ''Cloudy'' 65 85,
      mock_day4 (getDateString clk 3) ''Partly cloudy'' 60 80] = Inr (mock_cards4 clk)"
  by (simp add: forecast_card_4day_def mock_day4_def js_opt_def or_else_def template_def mock_cards4_def)

lemma mock_grid:
  "renderForecastGrid forecast_card_4day (getMockForecastData clk) w =
     Returned (if has_element ''weather-grid'' w then write_element ''weather-grid'' (Forecast_cards (mock_cards4 clk)) w else w)"
  by (simp add: renderForecastGrid_def getMockForecastData_def js_opt_def map_cards_mock4 Let_def
      del: map_cards.simps One_nat_def)

lemma two_catch_eq:
  "two_catch clk w =
     (let w1 = (if has_element ''current-weather'' w then write_element ''current-weather'' (Reading_now (Num 24) (Num 80)) w else w);
          w2 = (if has_element ''ocean-conditions'' w1 then write_element ''ocean-conditions'' (Ocean_4day (Str ''Partly cloudy'') (Num 60) (Num 80)) w1 else w1)
      in if has_element ''best-time'' w2 then
           (let w3 = w2\<lparr>document := set_id ''best-time'' ''forecast-container'' (set_content ''best-time'' Forecast_heading (document w2))\<rparr>
            in Returned (if has_element ''weather-grid'' w3 then write_element ''weather-grid'' (Forecast_cards (mock_cards4 clk)) w3 else w3))
         else Returned w2)"
  unfolding two_catch_def updateWeatherUI_two_def mock_grid
  by (simp add: getMockForecastData_def getMockReadingsData_def mock_day4_def js_opt_def or_else_def
      template_def write_template_def Let_def)

lemma two_catch_returns: "returned (two_catch clk w)"
  by (simp add: two_catch_eq Let_def)

lemma two_catch_current:
  "getElementById (document (after (two_catch clk w))) ''current-weather''
   = map_option (\<lambda>g. Reading_now (Num 24) (Num 80)) (getElementById (document w) ''current-weather'')"
  by (simp add: two_catch_eq Let_def lookup_write_element getElementById_set_id
      getElementById_set_content has_element_def)

lemma two_catch_ocean:
  "getElementById (document (after (two_catch clk w))) ''ocean-conditions''
   = map_option (\<lambda>g. Ocean_4day (Str ''Partly cloudy'') (Num 60) (Num 80))
       (getElementById (document w) ''ocean-conditions'')"
  by (simp add: two_catch_eq Let_def lookup_write_element getElementById_set_id
      getElementById_set_content has_element_def)

lemma two_catch_grid:
  "getElementById (document (after (two_catch clk w))) ''weather-grid''
   = (if has_element ''best-time'' w
      then map_option (\<lambda>g. Forecast_cards (mock_cards4 clk)) (getElementById (document w) ''weather-grid'')
      else getElementById (document w) ''weather-grid'')"
  by (auto simp: two_catch_eq Let_def lookup_write_element getElementById_set_id
      getElementById_set_content has_element_def)



lemma map_cards_mock_nea:
  "map_cards forecast_card_nea True
     [mock_day (getDateString clk 0) ''Partly cloudy'' 60 85 22 28,
      mock_day (getDateString clk 1) ''Thundery showers'' 70 90 21 26,
      mock_day (getDateString clk 2) ''Cloudy'' 65 85 23 27,
      mock_day (getDateString clk 3) ''Partly cloudy'' 60 80 22 28] = Inr (mock_cards_nea clk)"
  by (simp add: forecast_card_nea_def mock_day_def js_opt_def or_else_def template_def mock_cards_nea_def)

lemma mock_grid_nea:
  "renderForecastGrid forecast_card_nea (getMock4DayForecast clk) w =
     Returned (if has_element ''weather-grid'' w
               then write_element ''weather-grid'' (Forecast_cards (mock_cards_nea clk)) w else w)"
  by (simp add: renderForecastGrid_def getMock4DayForecast_def js_opt_def map_cards_mock_nea Let_def
      del: map_cards.simps One_nat_def)




lemma nea_catch_eq:
  "nea_catch clk w =
     (let w0 = w\<lparr>weather := getMockWeatherData_nea clk\<rparr>;
          w1 = (if has_element ''current-weather'' w0
                then write_element ''current-weather''
                       (Weather_nea (getForecastEmoji ''Partly cloudy'') (Num 28) (Num 60) (Num 85)
                          (Num 8) (Num 15) (Str ''NE'')) w0
                else w0);
          w2 = (if has_element ''ocean-conditions'' w1
                then write_element ''ocean-conditions''
                       (Ocean_nea (Str ''Partly cloudy'') (Num 60) (Num 85) (Num 22) (Num 28)) w1
                else w1)
      in Returned (if has_element ''weather-grid'' w2
                   then write_element ''weather-grid'' (Forecast_cards (mock_cards_nea clk)) w2 else w2))"
  unfolding nea_catch_def updateWeatherUI_nea_def mock_grid_nea
  by (simp add: getMockWeatherData_nea_def js_opt_def or_else_def template_def write_template_def Let_def)

lemma nea_catch_returns: "returned (nea_catch clk w)"
  by (simp add: nea_catch_eq Let_def)

lemma nea_status_error_is_network_failure:
  "\<not> ok st \<Longrightarrow>
     fetchWeatherData_nea clk (Reply st b) w = fetchWeatherData_nea clk Unreachable w
     \<and> fetchWeatherData_nea clk (Reply st b) w = nea_catch clk w
     \<and> returned (fetchWeatherData_nea clk (Reply st b) w)"
  by (simp add: fetchWeatherData_nea_def nea_catch_returns)

lemma wmo_mock_eq:
  "updateWeatherUI_wmo getMockWeatherData_wmo w =
     (let w1 = (if has_element ''current-weather'' w
                then write_element ''current-weather'' (Weather_wmo (Num 80) (Num 22) (Num 12)) w else w);
          w2 = (if has_element ''ocean-conditions'' w1
                then write_element ''ocean-conditions'' Ocean_fixed w1 else w1)
      in Returned (if has_element ''best-time'' w2
                   then write_element ''best-time'' Best_time_fixed w2 else w2))"
  by (simp add: updateWeatherUI_wmo_def getMockWeatherData_wmo_def js_opt_def template_def
      write_template_def Let_def)


















lemma example_page_lookup:
  "document example_world = example_page"
  by (simp add: example_world_def initial_world_def)

lemma live_example:
  "updateWeatherUI_two example_forecast example_readings example_world
   = Returned (example_world\<lparr>document :=
       set_content ''weather-grid''
         (Forecast_cards [Forecast_card (Str ''2026-11-02'') (getForecastEmoji ''Fair'') (Str ''Fair'')
                            [Num 65, Num 90] True])
         (set_id ''best-time'' ''forecast-container''
           (set_content ''best-time'' Forecast_heading
             (set_content ''ocean-conditions'' (Ocean_4day (Str ''Fair'') (Num 70) (Num 90))
               (set_content ''current-weather'' (Reading_now (Num 31) (Num 90)) example_page))))\<rparr>)"
  by (simp add: updateWeatherUI_two_def example_forecast_def example_readings_def js_opt_def
      or_else_def template_def write_template_def write_element_def renderForecastGrid_def
      forecast_card_4day_def Let_def example_page_lookup
      has_element_def getElementById_set_content getElementById_set_id)
     (simp add: example_page_def getElementById_def)


lemma error_body_example:
  "updateWeatherUI_two example_error_body example_readings example_world
    = Returned (example_world\<lparr>document :=
        set_id ''best-time'' ''forecast-container''
          (set_content ''best-time'' Forecast_heading
            (set_content ''current-weather'' (Reading_now (Num 31) (Num 75)) example_page))\<rparr>)"
  by (simp add: updateWeatherUI_two_def example_error_body_def example_readings_def js_opt_def
      or_else_def template_def write_template_def write_element_def renderForecastGrid_def Let_def
      example_page_lookup has_element_def getElementById_set_content getElementById_set_id)
     (simp add: example_page_def getElementById_def)

lemma rejected_call_renders_both_mocks:
  "fetchWeatherData_two clk Unreachable readingsReply w = two_catch clk w"
  "fetchWeatherData_two clk (Reply st None) readingsReply w = two_catch clk w"
  "fetchWeatherData_two clk (Reply st (Some f)) Unreachable w = two_catch clk w"
  "fetchWeatherData_two clk (Reply st (Some f)) (Reply st' None) w = two_catch clk w"
  "returned (two_catch clk w)"
  by (simp_all add: fetchWeatherData_two_def two_catch_returns)

section \<open>The claims about the weather\<close>

text \<open>
  C2: a response with an error status is to be handled as a network failure, the output
  being the mock forecast. part_000 does so (lemma
  \<open>nea_status_error_is_network_failure\<close>). part_001 and app.js never look at the status:
  with status 500 and a JSON error body from the forecast call, part_001 shows the live
  reading with a default humidity and leaves the ocean conditions alone, where a network
  failure shows the mock reading and the mock conditions; app.js shows whatever
  \<^verbatim>\<open>current\<close> the body of the 500 holds.
\<close>

theorem C2_error_status_is_rendered:
  "getElementById (document (after (fetchWeatherData_two example_clock
       (Reply 500 (Some example_error_body)) (Reply 200 (Some example_readings)) example_world)))
     ''current-weather'' = Some (Reading_now (Num 31) (Num 75))
   \<and> getElementById (document (after (fetchWeatherData_two example_clock
       Unreachable (Reply 200 (Some example_readings)) example_world)))
     ''current-weather'' = Some (Reading_now (Num 24) (Num 80))
   \<and> getElementById (document (after (fetchWeatherData_two example_clock
       (Reply 500 (Some example_error_body)) (Reply 200 (Some example_readings)) example_world)))
     ''ocean-conditions'' = Some Page_markup
   \<and> getElementById (document (after (fetchWeatherData_two example_clock
       Unreachable (Reply 200 (Some example_readings)) example_world)))
     ''ocean-conditions'' = Some (Ocean_4day (Str ''Partly cloudy'') (Num 60) (Num 80))
   \<and> getElementById (document (after (fetchWeatherData_wmo
       (Reply 500 (Some example_current)) example_located)))
     ''current-weather'' = Some (Weather_wmo (Num 0) (Num 31) (Num 5))
   \<and> getElementById (document (after (fetchWeatherData_wmo Unreachable example_located)))
     ''current-weather'' = Some (Weather_wmo (Num 80) (Num 22) (Num 12))"
proof -
  have page: "document example_world = example_page" "document example_located = example_page"
    by (simp_all add: example_world_def example_located_def initial_world_def)
  have live: "updateWeatherUI_two example_error_body example_readings example_world
    = Returned (example_world\<lparr>document :=
        set_id ''best-time'' ''forecast-container''
          (set_content ''best-time'' Forecast_heading
            (set_content ''current-weather'' (Reading_now (Num 31) (Num 75)) example_page))\<rparr>)"
    by (simp add: updateWeatherUI_two_def example_error_body_def example_readings_def js_opt_def
        or_else_def template_def write_template_def write_element_def renderForecastGrid_def Let_def page
        has_element_def getElementById_set_content getElementById_set_id)
       (simp add: example_page_def getElementById_def)
  have a: "getElementById (document (after (fetchWeatherData_two example_clock
       (Reply 500 (Some example_error_body)) (Reply 200 (Some example_readings)) example_world)))
     ''current-weather'' = Some (Reading_now (Num 31) (Num 75))"
    by (simp add: fetchWeatherData_two_def live getElementById_set_id getElementById_set_content)
       (simp add: example_page_def getElementById_def)
  have c: "getElementById (document (after (fetchWeatherData_two example_clock
       (Reply 500 (Some example_error_body)) (Reply 200 (Some example_readings)) example_world)))
     ''ocean-conditions'' = Some Page_markup"
    by (simp add: fetchWeatherData_two_def live getElementById_set_id getElementById_set_content)
       (simp add: example_page_def getElementById_def)
  have b: "getElementById (document (after (fetchWeatherData_two example_clock
       Unreachable (Reply 200 (Some example_readings)) example_world)))
     ''current-weather'' = Some (Reading_now (Num 24) (Num 80))"
    by (simp add: fetchWeatherData_two_def two_catch_current page)
       (simp add: example_page_def getElementById_def)
  have d: "getElementById (document (after (fetchWeatherData_two example_clock
       Unreachable (Reply 200 (Some example_readings)) example_world)))
     ''ocean-conditions'' = Some (Ocean_4day (Str ''Partly cloudy'') (Num 60) (Num 80))"
    by (simp add: fetchWeatherData_two_def two_catch_ocean page)
       (simp add: example_page_def getElementById_def)
  have loc: "userLocation example_located \<noteq> None" "has_element ''current-weather'' example_located"
    by (simp_all add: example_located_def has_element_def example_world_def initial_world_def
        example_page_def getElementById_def)
  have e: "getElementById (document (after (fetchWeatherData_wmo
       (Reply 500 (Some example_current)) example_located)))
     ''current-weather'' = Some (Weather_wmo (Num 0) (Num 31) (Num 5))"
    using loc
    by (simp add: fetchWeatherData_wmo_def updateWeatherUI_wmo_def example_current_def js_opt_def
        template_def write_template_def Let_def lookup_write_element page)
       (simp add: example_page_def getElementById_def)
  have f: "getElementById (document (after (fetchWeatherData_wmo Unreachable example_located)))
     ''current-weather'' = Some (Weather_wmo (Num 80) (Num 22) (Num 12))"
    using loc
    by (simp add: fetchWeatherData_wmo_def wmo_mock_eq Let_def lookup_write_element page)
       (simp add: example_page_def getElementById_def)
  from a b c d e f show ?thesis by simp
qed




text \<open>
  C6: in part_001 a failure of either call is to give the mock data for both results,
  never a mix of live and mock. A rejected call and a body that is not JSON do so (lemma
  \<open>rejected_call_renders_both_mocks\<close>). Two runs do not. With status 500 and a JSON
  error body from the forecast call and a good reading, the page shows the live reading
  of 31 with the default humidity and leaves the ocean conditions and the grid as they
  were: no mock data at all. And after a run with two good replies, which renames the
  element \<^verbatim>\<open>best-time\<close>, a run whose calls are rejected shows the mock reading and the
  mock conditions beside the card of the live forecast, since the grid is never drawn
  again.
\<close>

theorem C6_status_error_and_stale_grid:
  "getElementById (document (after (fetchWeatherData_two example_clock
       (Reply 500 (Some example_error_body)) (Reply 200 (Some example_readings)) example_world)))
     ''current-weather'' = Some (Reading_now (Num 31) (Num 75))
   \<and> getElementById (document (after (fetchWeatherData_two example_clock
       (Reply 500 (Some example_error_body)) (Reply 200 (Some example_readings)) example_world)))
     ''ocean-conditions'' = Some Page_markup
   \<and> getElementById (document (after (fetchWeatherData_two example_clock
       (Reply 500 (Some example_error_body)) (Reply 200 (Some example_readings)) example_world)))
     ''weather-grid'' = Some Page_markup
   \<and> getElementById (document (after (fetchWeatherData_two example_clock Unreachable Unreachable
       (after (fetchWeatherData_two example_clock
          (Reply 200 (Some example_forecast)) (Reply 200 (Some example_readings)) example_world)))))
     ''current-weather'' = Some (Reading_now (Num 24) (Num 80))
   \<and> getElementById (document (after (fetchWeatherData_two example_clock Unreachable Unreachable
       (after (fetchWeatherData_two example_clock
          (Reply 200 (Some example_forecast)) (Reply 200 (Some example_readings)) example_world)))))
     ''ocean-conditions'' = Some (Ocean_4day (Str ''Partly cloudy'') (Num 60) (Num 80))
   \<and> getElementById (document (after (fetchWeatherData_two example_clock Unreachable Unreachable
       (after (fetchWeatherData_two example_clock
          (Reply 200 (Some example_forecast)) (Reply 200 (Some example_readings)) example_world)))))
     ''weather-grid''
     = Some (Forecast_cards [Forecast_card (Str ''2026-11-02'') (getForecastEmoji ''Fair'') (Str ''Fair'')
                               [Num 65, Num 90] True])"
proof -
  let ?status = "after (fetchWeatherData_two example_clock
       (Reply 500 (Some example_error_body)) (Reply 200 (Some example_readings)) example_world)"
  let ?first = "after (fetchWeatherData_two example_clock
          (Reply 200 (Some example_forecast)) (Reply 200 (Some example_readings)) example_world)"
  let ?second = "after (fetchWeatherData_two example_clock Unreachable Unreachable ?first)"
  have a: "getElementById (document ?status) ''current-weather'' = Some (Reading_now (Num 31) (Num 75))"
    by (simp add: fetchWeatherData_two_def error_body_example getElementById_set_id
        getElementById_set_content)
       (simp add: example_page_def getElementById_def)
  have b: "getElementById (document ?status) ''ocean-conditions'' = Some Page_markup"
    by (simp add: fetchWeatherData_two_def error_body_example getElementById_set_id
        getElementById_set_content)
       (simp add: example_page_def getElementById_def)
  have c: "getElementById (document ?status) ''weather-grid'' = Some Page_markup"
    by (simp add: fetchWeatherData_two_def error_body_example getElementById_set_id
        getElementById_set_content)
       (simp add: example_page_def getElementById_def)
  have first: "?first = example_world\<lparr>document :=
       set_content ''weather-grid''
         (Forecast_cards [Forecast_card (Str ''2026-11-02'') (getForecastEmoji ''Fair'') (Str ''Fair'')
                            [Num 65, Num 90] True])
         (set_id ''best-time'' ''forecast-container''
           (set_content ''best-time'' Forecast_heading
             (set_content ''ocean-conditions'' (Ocean_4day (Str ''Fair'') (Num 70) (Num 90))
               (set_content ''current-weather'' (Reading_now (Num 31) (Num 90)) example_page))))\<rparr>"
    by (simp add: fetchWeatherData_two_def live_example)
  have d: "getElementById (document ?second) ''current-weather'' = Some (Reading_now (Num 24) (Num 80))"
    unfolding first
    by (simp add: fetchWeatherData_two_def two_catch_current getElementById_set_id
        getElementById_set_content)
       (simp add: example_page_def getElementById_def)
  have e: "getElementById (document ?second) ''ocean-conditions''
           = Some (Ocean_4day (Str ''Partly cloudy'') (Num 60) (Num 80))"
    unfolding first
    by (simp add: fetchWeatherData_two_def two_catch_ocean getElementById_set_id
        getElementById_set_content)
       (simp add: example_page_def getElementById_def)
  have f: "getElementById (document ?second) ''weather-grid''
     = Some (Forecast_cards [Forecast_card (Str ''2026-11-02'') (getForecastEmoji ''Fair'') (Str ''Fair'')
                               [Num 65, Num 90] True])"
    unfolding first
    by (simp add: fetchWeatherData_two_def two_catch_grid has_element_def getElementById_set_id
        getElementById_set_content)
       (simp add: example_page_def getElementById_def set_id.simps)
  from a b c d e f show ?thesis by simp
qed

end
